theory Spec2Isabelle
  imports Main
begin

section \<open>PyPLE: operator rows, Python values and errors\<close>

text \<open>
  The classes of \<^verbatim>\<open>pyple.py\<close> in the order of \<^verbatim>\<open>PYPLE_TABLES\<close>. The base
  class \<^verbatim>\<open>Operator\<close> is itself a table and can be instantiated.
\<close>

datatype optype =
  Operator | AlwaysTrueOp | AlwaysFalseOp | RegexOp | AND | OR | NOT | XOR | NAND | NOR

text \<open>
  One persisted object. \<open>name\<close> is the nullable column of \<^verbatim>\<open>Operator\<close>;
  \<open>pattern\<close> and \<open>case_sensitive\<close> are the columns of \<^verbatim>\<open>RegexOp\<close> and are read
  only when \<open>optype\<close> is \<open>RegexOp\<close>; \<open>parameters\<close> is the join, a sequence of
  object identities (row ids).
\<close>

record operator =
  optype :: optype
  name :: "string option"
  pattern :: string
  case_sensitive :: bool
  parameters :: "nat list"

text \<open>The object store: rows keyed by id. An object reference is its id.\<close>

type_synonym store = "(nat \<times> operator) list"

text \<open>What an \<^verbatim>\<open>eval\<close> method can return: a boolean, or \<^verbatim>\<open>None\<close> from the base class.\<close>

datatype pyval = PyNone | PyBool bool

fun truthy :: "pyval \<Rightarrow> bool" where
  "truthy PyNone = False"
| "truthy (PyBool b) = b"

text \<open>
  The exceptions of the code paths modelled here. \<open>ValueError\<close> and
  \<open>AssertionError\<close> are raised by \<^verbatim>\<open>pyple.py\<close> itself and carry its message;
  \<open>re_error\<close> is \<^verbatim>\<open>re.error\<close> from \<^verbatim>\<open>re.compile\<close>; \<open>TypeError\<close> comes from
  \<^verbatim>\<open>search(None)\<close> and from a constructor called with the wrong keywords;
  \<open>SQLObjectNotFound\<close> is a reference to a row the store does not hold.
\<close>

datatype error =
  ValueError string | AssertionError string | TypeError | re_error | SQLObjectNotFound

section \<open>The regular-expression library\<close>

text \<open>
  Python's \<^verbatim>\<open>re\<close> module is not part of the repository; the code uses two of its
  operations, which are taken as a parameter:
  \<^item> \<open>re_compile p ic\<close> is \<^verbatim>\<open>re.compile(p)\<close> when \<open>ic\<close> is false and
    \<^verbatim>\<open>re.compile(p, re.IGNORECASE)\<close> when it is true; \<open>None\<close> stands for \<^verbatim>\<open>re.error\<close>;
  \<^item> \<open>re_search r text\<close> is the truth value of \<^verbatim>\<open>r.search(text)\<close>, the unanchored
    search of a compiled matcher.
\<close>

record 'm re_module =
  re_compile :: "string \<Rightarrow> bool \<Rightarrow> 'm option"
  re_search :: "'m \<Rightarrow> string \<Rightarrow> bool"

section \<open>Engine\<close>

record 'm Engine =
  debuglevel :: int
  dbconnection :: "string option"
  re_cache :: "string \<rightharpoonup> 'm"

text \<open>\<^verbatim>\<open>Engine.__init__\<close>.\<close>

definition Engine_init :: "int \<Rightarrow> 'm Engine" where
  "Engine_init debug = \<lparr>debuglevel = debug, dbconnection = None, re_cache = Map.empty\<rparr>"

text \<open>
  The functions that may call \<^verbatim>\<open>re.compile\<close> return, besides their result and the
  engine they leave behind, the number of calls of \<^verbatim>\<open>re.compile\<close> they made (the
  compile-count hook of the specification).
\<close>

text \<open>\<^verbatim>\<open>RegexOp.compile(self, engine=None)\<close>.\<close>

definition RegexOp_compile ::
  "'m re_module \<Rightarrow> operator \<Rightarrow> 'm Engine option \<Rightarrow> (error + 'm) \<times> 'm Engine option \<times> nat" where
  "RegexOp_compile lib self engine =
     (case (if case_sensitive self then re_compile lib (pattern self) False
            else re_compile lib (pattern self) True) of
        None \<Rightarrow> (Inl re_error, engine, 1)
      | Some r \<Rightarrow>
          (Inr r,
           (case engine of
              None \<Rightarrow> None
            | Some e \<Rightarrow> Some (e\<lparr>re_cache := (re_cache e)(pattern self \<mapsto> r)\<rparr>)),
           1))"

text \<open>
  \<^verbatim>\<open>RegexOp.eval(self, data, engine=None)\<close>. \<open>data\<close> is a text or \<^verbatim>\<open>None\<close>;
  searching \<^verbatim>\<open>None\<close> raises \<^verbatim>\<open>TypeError\<close>, after the matcher has been obtained.
\<close>

definition RegexOp_eval ::
  "'m re_module \<Rightarrow> operator \<Rightarrow> string option \<Rightarrow> 'm Engine option
     \<Rightarrow> (error + pyval) \<times> 'm Engine option \<times> nat" where
  "RegexOp_eval lib self data engine =
     (case (case engine of
              None \<Rightarrow> RegexOp_compile lib self None
            | Some e \<Rightarrow>
                (case re_cache e (pattern self) of
                   Some r \<Rightarrow> (Inr r, engine, 0)
                 | None \<Rightarrow> RegexOp_compile lib self engine)) of
        (Inl err, engine', n) \<Rightarrow> (Inl err, engine', n)
      | (Inr tmp_re, engine', n) \<Rightarrow>
          (case data of
             None \<Rightarrow> (Inl TypeError, engine', n)
           | Some text \<Rightarrow>
               (if re_search lib tmp_re text then (Inr (PyBool True), engine', n)
                else (Inr (PyBool False), engine', n))))"

text \<open>\<^verbatim>\<open>Engine.cache_regex(self, pattern, obj=None)\<close>.\<close>

definition cache_regex ::
  "'m re_module \<Rightarrow> 'm Engine \<Rightarrow> string \<Rightarrow> 'm option \<Rightarrow> (error + unit) \<times> 'm Engine \<times> nat" where
  "cache_regex lib self pat obj =
     (case obj of
        Some ob \<Rightarrow> (Inr (), self\<lparr>re_cache := (re_cache self)(pat \<mapsto> ob)\<rparr>, 0)
      | None \<Rightarrow>
          (case re_compile lib pat False of
             None \<Rightarrow> (Inl re_error, self, 1)
           | Some r \<Rightarrow> (Inr (), self\<lparr>re_cache := (re_cache self)(pat \<mapsto> r)\<rparr>, 1)))"

section \<open>The object store\<close>

text \<open>
  Modelled from the spec: the constructor of a persisted class belongs to the persistence
  library, which the repository imports and does not contain. Per the node store contract
  (create(variant, fields) gives a node with an id) it adds one row with a fresh id, the
  given fields, \<open>case_sensitive\<close> defaulting to false, \<open>name\<close> to \<^verbatim>\<open>None\<close> and no
  children. \<^verbatim>\<open>RegexOp\<close> has a \<open>pattern\<close> column without default, the other classes
  have neither \<open>pattern\<close> nor \<open>case_sensitive\<close>: a missing or an unexpected keyword is
  a \<^verbatim>\<open>TypeError\<close>.
\<close>

record kwargs =
  kw_name :: "string option"
  kw_pattern :: "string option"
  kw_case_sensitive :: "bool option"

definition fresh_id :: "store \<Rightarrow> nat" where
  "fresh_id s = Suc (fold max (map fst s) 0)"

definition new_object :: "store \<Rightarrow> optype \<Rightarrow> kwargs \<Rightarrow> error + (nat \<times> store)" where
  "new_object s cls kw =
     (if cls = RegexOp then
        (case kw_pattern kw of
           None \<Rightarrow> Inl TypeError
         | Some p \<Rightarrow>
             Inr (fresh_id s,
                  s @ [(fresh_id s,
                        \<lparr>optype = cls, name = kw_name kw, pattern = p,
                         case_sensitive = (case kw_case_sensitive kw of None \<Rightarrow> False | Some b \<Rightarrow> b),
                         parameters = []\<rparr>)]))
      else if kw_pattern kw \<noteq> None \<or> kw_case_sensitive kw \<noteq> None then Inl TypeError
      else
        Inr (fresh_id s,
             s @ [(fresh_id s,
                   \<lparr>optype = cls, name = kw_name kw, pattern = [],
                    case_sensitive = False, parameters = []\<rparr>)]))"

text \<open>
  Modelled from the spec: \<^verbatim>\<open>addOperator\<close> is the method the persistence library
  generates for the \<open>parameters\<close> join; it is not in the repository. Per the node store
  contract (append-child(parent, child); children are an ordered sequence in insertion
  order, duplicates permitted) it appends the child to the parent's sequence.
\<close>

definition addOperator :: "store \<Rightarrow> nat \<Rightarrow> nat \<Rightarrow> store" where
  "addOperator s self param =
     map (\<lambda>(i, row). if i = self then (i, row\<lparr>parameters := parameters row @ [param]\<rparr>)
                       else (i, row)) s"

text \<open>
  \<^verbatim>\<open>Operator.addParameter(self, param)\<close>. \<^verbatim>\<open>param is self\<close> compares object
  identities, here ids. The store is returned in both cases: an exception leaves behind
  whatever state was reached when it was raised.
\<close>

definition addParameter :: "store \<Rightarrow> nat \<Rightarrow> nat \<Rightarrow> (error + unit) \<times> store" where
  "addParameter s self param =
     (if param = self then
        (Inl (ValueError ''A rule cannot contain itself as a sub-rule!''), s)
      else (Inr (), addOperator s self param))"

text \<open>
  Modelled from the spec: \<^verbatim>\<open>Operator.selectBy(name=name)\<close> is the persistence
  library's query (lookup-by-name gives zero, one or many nodes): the rows whose name is
  the given one, as references.
\<close>

definition selectBy_name :: "store \<Rightarrow> string option \<Rightarrow> nat list" where
  "selectBy_name s nm = map fst (filter (\<lambda>(i, row). name row = nm) s)"

text \<open>\<^verbatim>\<open>Engine.get_op(self, name)\<close>; the engine itself is not used by the method.\<close>

definition get_op :: "store \<Rightarrow> string option \<Rightarrow> error + nat" where
  "get_op s nm =
     (let rs = selectBy_name s nm in
      if length rs \<noteq> 1 then
        Inl (AssertionError ''Operator.selectBy(name=name) should return only one result.'')
      else Inr (rs ! 0))"

text \<open>
  \<^verbatim>\<open>Engine.new_op(self, optype=None, **kw)\<close>. The result is the new object's
  reference, the engine, the store and the number of calls of \<^verbatim>\<open>re.compile\<close>.
  Setting \<^verbatim>\<open>op._connection\<close> does not touch anything modelled here.
\<close>

definition new_op ::
  "'m re_module \<Rightarrow> 'm Engine \<Rightarrow> store \<Rightarrow> optype option \<Rightarrow> kwargs
     \<Rightarrow> (error + nat) \<times> 'm Engine \<times> store \<times> nat" where
  "new_op lib self s cls kw =
     (case cls of
        None \<Rightarrow> (Inl (ValueError ''Engine.new_op(): optype can't be None.''), self, s, 0)
      | Some c \<Rightarrow>
          (case new_object s c kw of
             Inl e \<Rightarrow> (Inl e, self, s, 0)
           | Inr (op, s') \<Rightarrow>
               (case (if c = RegexOp then kw_pattern kw else None) of
                  Some p \<Rightarrow>
                    (case cache_regex lib self p None of
                       (Inl e, self', n) \<Rightarrow> (Inl e, self', s', n)
                     | (Inr u, self', n) \<Rightarrow> (Inr op, self', s', n))
                | None \<Rightarrow> (Inr op, self, s', 0))))"

section \<open>Evaluation\<close>

text \<open>
  The outcome of a call of \<^verbatim>\<open>eval\<close>: the value returned or the exception raised,
  and the objects whose \<^verbatim>\<open>eval\<close> was entered, in call order. A call that does not
  come back within the given recursion depth has no outcome (\<open>None\<close>): parameters may
  form a cycle, which nothing but the direct self check prevents.
\<close>

type_synonym outcome = "(error + pyval) \<times> nat list"

definition ret :: "pyval \<Rightarrow> outcome option" where
  "ret v = Some (Inr v, [])"

definition raise :: "error \<Rightarrow> outcome option" where
  "raise e = Some (Inl e, [])"

text \<open>Run a call, then continue with its value; an exception ends the whole evaluation.\<close>

definition and_then :: "outcome option \<Rightarrow> (pyval \<Rightarrow> outcome option) \<Rightarrow> outcome option" where
  "and_then m f =
     (case m of
        None \<Rightarrow> None
      | Some (Inl e, t) \<Rightarrow> Some (Inl e, t)
      | Some (Inr v, t) \<Rightarrow>
          (case f v of None \<Rightarrow> None | Some (r, t') \<Rightarrow> Some (r, t @ t')))"

text \<open>Entering the \<^verbatim>\<open>eval\<close> of object \<open>i\<close>.\<close>

definition enter :: "nat \<Rightarrow> outcome option \<Rightarrow> outcome option" where
  "enter i m = (case m of None \<Rightarrow> None | Some (r, t) \<Rightarrow> Some (r, i # t))"

text \<open>
  The loops of the methods, over \<^verbatim>\<open>self.parameters\<close>; \<open>ev p\<close> is the call
  \<^verbatim>\<open>param.eval(data)\<close>.
\<close>

fun AND_loop :: "(nat \<Rightarrow> outcome option) \<Rightarrow> nat list \<Rightarrow> outcome option" where
  "AND_loop ev [] = ret (PyBool True)"
| "AND_loop ev (param # ps) =
     and_then (ev param) (\<lambda>v. if \<not> truthy v then ret (PyBool False) else AND_loop ev ps)"

fun OR_loop :: "(nat \<Rightarrow> outcome option) \<Rightarrow> nat list \<Rightarrow> outcome option" where
  "OR_loop ev [] = ret (PyBool False)"
| "OR_loop ev (param # ps) =
     and_then (ev param) (\<lambda>v. if truthy v then ret (PyBool True) else OR_loop ev ps)"

text \<open>The loop of \<^verbatim>\<open>NOT.eval\<close> and of \<^verbatim>\<open>NOR.eval\<close> (the same statements in both).\<close>

fun NOR_loop :: "(nat \<Rightarrow> outcome option) \<Rightarrow> nat list \<Rightarrow> outcome option" where
  "NOR_loop ev [] = ret (PyBool True)"
| "NOR_loop ev (param # ps) =
     and_then (ev param) (\<lambda>v. if truthy v then ret (PyBool False) else NOR_loop ev ps)"

definition AND_eval :: "(nat \<Rightarrow> outcome option) \<Rightarrow> nat list \<Rightarrow> outcome option" where
  "AND_eval ev ps = AND_loop ev ps"

definition OR_eval :: "(nat \<Rightarrow> outcome option) \<Rightarrow> nat list \<Rightarrow> outcome option" where
  "OR_eval ev ps = OR_loop ev ps"

definition NOT_eval :: "(nat \<Rightarrow> outcome option) \<Rightarrow> nat list \<Rightarrow> outcome option" where
  "NOT_eval ev ps =
     (if \<not> length ps < 2 then
        raise (AssertionError ''NOT only works with one or zero Operator parameters'')
      else if length ps > 0 then NOR_loop ev ps
      else ret (PyBool True))"

text \<open>
  \<^verbatim>\<open>XOR.eval\<close>: Python's \<^verbatim>\<open>and\<close> evaluates its right operand only when the left
  one is true, and the \<^verbatim>\<open>elif\<close> condition calls the children again.
\<close>

definition XOR_eval :: "(nat \<Rightarrow> outcome option) \<Rightarrow> nat list \<Rightarrow> outcome option" where
  "XOR_eval ev ps =
     (if length ps \<noteq> 2 then
        raise (AssertionError ''XOR only works with two Operator parameters'')
      else
        (let elif =
           and_then (ev (ps ! 1)) (\<lambda>b.
             if truthy b then
               and_then (ev (ps ! 0)) (\<lambda>a.
                 if \<not> truthy a then ret (PyBool True) else ret (PyBool False))
             else ret (PyBool False))
         in
         and_then (ev (ps ! 0)) (\<lambda>a.
           if truthy a then
             and_then (ev (ps ! 1)) (\<lambda>b. if \<not> truthy b then ret (PyBool True) else elif)
           else elif)))"

definition NAND_eval :: "(nat \<Rightarrow> outcome option) \<Rightarrow> nat list \<Rightarrow> outcome option" where
  "NAND_eval ev ps =
     (if length ps \<noteq> 2 then
        raise (AssertionError ''NAND only works with two Operator parameters'')
      else
        and_then (ev (ps ! 0)) (\<lambda>a.
          if truthy a then
            and_then (ev (ps ! 1)) (\<lambda>b.
              if truthy b then ret (PyBool False) else ret (PyBool True))
          else ret (PyBool True)))"

definition NOR_eval :: "(nat \<Rightarrow> outcome option) \<Rightarrow> nat list \<Rightarrow> outcome option" where
  "NOR_eval ev ps =
     (if \<not> length ps \<ge> 2 then
        raise (AssertionError ''NOR only works with two or more Operator parameters'')
      else NOR_loop ev ps)"

text \<open>
  Reading \<^verbatim>\<open>self.parameters\<close>. The attribute is the join of the persistence library:
  each read fetches the object of every row the join refers to, so a reference to a row
  the store does not hold raises \<^verbatim>\<open>SQLObjectNotFound\<close> at the read, before any
  parameter is called. The store does not change during an evaluation, so the first read
  of a method decides for its later ones.
\<close>

definition load_parameters :: "store \<Rightarrow> operator \<Rightarrow> error + nat list" where
  "load_parameters s self =
     (if list_all (\<lambda>param. map_of s param \<noteq> None) (parameters self)
      then Inr (parameters self)
      else Inl SQLObjectNotFound)"

definition with_parameters ::
  "store \<Rightarrow> operator \<Rightarrow> (nat list \<Rightarrow> outcome option) \<Rightarrow> outcome option" where
  "with_parameters s self body =
     (case load_parameters s self of
        Inl e \<Rightarrow> raise e
      | Inr ps \<Rightarrow> body ps)"

text \<open>
  The method of a row's class, called as \<^verbatim>\<open>self.eval(data)\<close>. Each method of a
  logical operator begins by reading \<^verbatim>\<open>self.parameters\<close> (in its \<^verbatim>\<open>for\<close> or in
  the \<^verbatim>\<open>len\<close> of its assertion); the other four classes never read it. The logical
  operators call their parameters with the data alone, so a \<^verbatim>\<open>RegexOp\<close> below them
  runs without an engine.
\<close>

definition dispatch ::
  "'m re_module \<Rightarrow> store \<Rightarrow> (nat \<Rightarrow> outcome option) \<Rightarrow> operator \<Rightarrow> string option
     \<Rightarrow> outcome option" where
  "dispatch lib s ev self data =
     (case optype self of
        Operator \<Rightarrow> ret PyNone
      | AlwaysTrueOp \<Rightarrow> ret (PyBool True)
      | AlwaysFalseOp \<Rightarrow> ret (PyBool False)
      | RegexOp \<Rightarrow> Some (fst (RegexOp_eval lib self data None), [])
      | AND \<Rightarrow> with_parameters s self (AND_eval ev)
      | OR \<Rightarrow> with_parameters s self (OR_eval ev)
      | NOT \<Rightarrow> with_parameters s self (NOT_eval ev)
      | XOR \<Rightarrow> with_parameters s self (XOR_eval ev)
      | NAND \<Rightarrow> with_parameters s self (NAND_eval ev)
      | NOR \<Rightarrow> with_parameters s self (NOR_eval ev))"

text \<open>
  \<open>eval k lib s self data\<close>: the call \<^verbatim>\<open>self.eval(data)\<close> on the object with
  reference \<open>self\<close>, with recursion depth at most \<open>k\<close>.
\<close>

fun eval :: "nat \<Rightarrow> 'm re_module \<Rightarrow> store \<Rightarrow> nat \<Rightarrow> string option \<Rightarrow> outcome option" where
  "eval 0 lib s self data = None"
| "eval (Suc k) lib s self data =
     (case map_of s self of
        None \<Rightarrow> raise SQLObjectNotFound
      | Some row \<Rightarrow>
          enter self (dispatch lib s (\<lambda>param. eval k lib s param data) row data))"

text \<open>
  What \<^verbatim>\<open>eval\<close> returns or raises once it holds the matcher \<open>r\<close>: the last five
  lines of \<^verbatim>\<open>RegexOp.eval\<close>, as a function of the matcher and the data.
\<close>

definition searched :: "'m re_module \<Rightarrow> 'm \<Rightarrow> string option \<Rightarrow> error + pyval" where
  "searched lib r data =
     (case data of
        None \<Rightarrow> Inl TypeError
      | Some text \<Rightarrow> Inr (PyBool (re_search lib r text)))"

section \<open>Callers\<close>

text \<open>
  Two \<^verbatim>\<open>RegexOp\<close> objects evaluated one after the other on the same data with the
  same engine: \<^verbatim>\<open>a.eval(data, engine)\<close>, then \<^verbatim>\<open>b.eval(data, engine)\<close>. The engine
  is one object, so the second call sees the cache the first call left. The result is
  both outcomes, the engine at the end and the calls of \<^verbatim>\<open>re.compile\<close> in total.
\<close>

definition eval_both ::
  "'m re_module \<Rightarrow> operator \<Rightarrow> operator \<Rightarrow> string option \<Rightarrow> 'm Engine
     \<Rightarrow> (error + pyval) \<times> (error + pyval) \<times> 'm Engine option \<times> nat" where
  "eval_both lib a b data engine =
     (case RegexOp_eval lib a data (Some engine) of
        (r1, engine1, n1) \<Rightarrow>
          (case RegexOp_eval lib b data engine1 of
             (r2, engine2, n2) \<Rightarrow> (r1, r2, engine2, n1 + n2)))"

section \<open>A regular-expression library for literal patterns\<close>

text \<open>
  An instance of the library parameter, used to run the model on concrete inputs. It
  covers the patterns made of letters, digits and spaces, with an optional leading
  \<^verbatim>\<open>^\<close>, on which it does what Python's \<^verbatim>\<open>re\<close> does: a pattern without \<^verbatim>\<open>^\<close> is
  found anywhere in the text, one with \<^verbatim>\<open>^\<close> only at its start, and
  \<^verbatim>\<open>re.IGNORECASE\<close> identifies upper and lower case letters. Every other pattern is
  rejected, which is Python's answer only for a malformed one such as \<^verbatim>\<open>(\<close>.
\<close>

datatype lit_matcher = LitMatcher (anchored: bool) (body: string) (ignorecase: bool)

definition plain_char :: "char \<Rightarrow> bool" where
  "plain_char c =
     (c \<in> set ''abcdefghijklmnopqrstuvwxyzABCDEFGHIJKLMNOPQRSTUVWXYZ0123456789 '')"

definition lower :: "char \<Rightarrow> char" where
  "lower c =
     (case map_of (zip ''ABCDEFGHIJKLMNOPQRSTUVWXYZ'' ''abcdefghijklmnopqrstuvwxyz'') c of
        None \<Rightarrow> c
      | Some d \<Rightarrow> d)"

fun starts_with :: "string \<Rightarrow> string \<Rightarrow> bool" where
  "starts_with t [] = True"
| "starts_with [] (p # ps) = False"
| "starts_with (c # t) (p # ps) = (c = p \<and> starts_with t ps)"

fun contains :: "string \<Rightarrow> string \<Rightarrow> bool" where
  "contains [] p = (p = [])"
| "contains (c # t) p = (starts_with (c # t) p \<or> contains t p)"

definition lit_compile :: "string \<Rightarrow> bool \<Rightarrow> lit_matcher option" where
  "lit_compile p ic =
     (case p of
        [] \<Rightarrow> Some (LitMatcher False [] ic)
      | c # rest \<Rightarrow>
          (if c = CHR ''^'' then
             (if list_all plain_char rest then Some (LitMatcher True rest ic) else None)
           else if list_all plain_char p then Some (LitMatcher False p ic)
           else None))"

definition lit_search :: "lit_matcher \<Rightarrow> string \<Rightarrow> bool" where
  "lit_search r text =
     (let t = (if ignorecase r then map lower text else text);
          b = (if ignorecase r then map lower (body r) else body r)
      in if anchored r then starts_with t b else contains t b)"

definition lit_re :: "lit_matcher re_module" where
  "lit_re = \<lparr>re_compile = lit_compile, re_search = lit_search\<rparr>"

section \<open>The regular-expression path\<close>

lemmas lit_simps = lit_re_def lit_compile_def lit_search_def plain_char_def lower_def

lemma RegexOp_compile_flag:
  "RegexOp_compile lib self engine =
     (case re_compile lib (pattern self) (\<not> case_sensitive self) of
        None \<Rightarrow> (Inl re_error, engine, 1)
      | Some r \<Rightarrow>
          (Inr r,
           map_option (\<lambda>e. e\<lparr>re_cache := (re_cache e)(pattern self \<mapsto> r)\<rparr>) engine, 1))"
  by (cases "case_sensitive self"; cases engine)
    (simp_all add: RegexOp_compile_def split: option.splits)

lemma RegexOp_eval_hit:
  "re_cache e (pattern self) = Some r \<Longrightarrow>
   RegexOp_eval lib self data (Some e) = (searched lib r data, Some e, 0)"
  by (simp add: RegexOp_eval_def searched_def split: option.splits)

lemma RegexOp_eval_miss:
  "re_cache e (pattern self) = None \<Longrightarrow>
   re_compile lib (pattern self) (\<not> case_sensitive self) = Some r \<Longrightarrow>
   RegexOp_eval lib self data (Some e) =
     (searched lib r data, Some (e\<lparr>re_cache := (re_cache e)(pattern self \<mapsto> r)\<rparr>), 1)"
  by (simp add: RegexOp_eval_def RegexOp_compile_flag searched_def split: option.splits)

lemma RegexOp_eval_miss_error:
  "re_cache e (pattern self) = None \<Longrightarrow>
   re_compile lib (pattern self) (\<not> case_sensitive self) = None \<Longrightarrow>
   RegexOp_eval lib self data (Some e) = (Inl re_error, Some e, 1)"
  by (simp add: RegexOp_eval_def RegexOp_compile_flag)

lemma RegexOp_eval_no_engine:
  "RegexOp_eval lib self data None =
     (case re_compile lib (pattern self) (\<not> case_sensitive self) of
        None \<Rightarrow> (Inl re_error, None, 1)
      | Some r \<Rightarrow> (searched lib r data, None, 1))"
  by (simp add: RegexOp_eval_def RegexOp_compile_flag searched_def split: option.splits)

text \<open>
  C2. A \<^verbatim>\<open>RegexOp\<close> evaluated with an engine. If the pattern is a key of the cache,
  the stored matcher \<open>r\<close> is used whatever the object's \<open>case_sensitive\<close> flag \<open>b\<close> is,
  nothing is compiled and the engine is unchanged. If it is not, the pattern is compiled
  once, with \<^verbatim>\<open>re.IGNORECASE\<close> exactly when \<open>case_sensitive\<close> is false, and the
  matcher is in the cache under the pattern when the search runs: it is there also when
  the search raises (\<open>data = None\<close>). If the compilation fails, \<^verbatim>\<open>re.error\<close>
  propagates and the cache is unchanged.
\<close>

theorem RegexOp_eval_cache:
  "(re_cache e (pattern self) = Some r \<longrightarrow>
      RegexOp_eval lib (self\<lparr>case_sensitive := b\<rparr>) data (Some e) =
        (searched lib r data, Some e, 0)) \<and>
   (re_cache e (pattern self) = None \<longrightarrow>
      re_compile lib (pattern self) (\<not> case_sensitive self) = Some r \<longrightarrow>
      RegexOp_eval lib self data (Some e) =
        (searched lib r data, Some (e\<lparr>re_cache := (re_cache e)(pattern self \<mapsto> r)\<rparr>), 1)) \<and>
   (re_cache e (pattern self) = None \<longrightarrow>
      re_compile lib (pattern self) (\<not> case_sensitive self) = None \<longrightarrow>
      RegexOp_eval lib self data (Some e) = (Inl re_error, Some e, 1))"
  using RegexOp_eval_hit [of e "self\<lparr>case_sensitive := b\<rparr>" r lib data]
    RegexOp_eval_miss [of e self lib r data] RegexOp_eval_miss_error [of e self lib data]
  by simp

theorem RegexOp_eval_cache_witness:
  "RegexOp_eval lit_re
     \<lparr>optype = RegexOp, name = None, pattern = ''order'', case_sensitive = True,
      parameters = []\<rparr>
     (Some ''Order 66'')
     (Some \<lparr>debuglevel = 0, dbconnection = None,
            re_cache = [''order'' \<mapsto> LitMatcher False ''order'' True]\<rparr>)
   = (Inr (PyBool True),
      Some \<lparr>debuglevel = 0, dbconnection = None,
            re_cache = [''order'' \<mapsto> LitMatcher False ''order'' True]\<rparr>, 0) \<and>
   RegexOp_eval lit_re
     \<lparr>optype = RegexOp, name = None, pattern = ''order'', case_sensitive = True,
      parameters = []\<rparr>
     None (Some (Engine_init 0))
   = (Inl TypeError,
      Some \<lparr>debuglevel = 0, dbconnection = None,
            re_cache = [''order'' \<mapsto> LitMatcher False ''order'' False]\<rparr>, 1) \<and>
   RegexOp_eval lit_re
     \<lparr>optype = RegexOp, name = None, pattern = ''(order'', case_sensitive = True,
      parameters = []\<rparr>
     (Some ''Order 66'') (Some (Engine_init 0))
   = (Inl re_error, Some (Engine_init 0), 1)"
  using RegexOp_eval_cache [of
      "\<lparr>debuglevel = 0, dbconnection = None,
        re_cache = [''order'' \<mapsto> LitMatcher False ''order'' True]\<rparr>"
      "\<lparr>optype = RegexOp, name = None, pattern = ''order'', case_sensitive = False,
        parameters = []\<rparr>"
      "LitMatcher False ''order'' True" lit_re True "Some ''Order 66''"]
    RegexOp_eval_cache [of "Engine_init 0"
      "\<lparr>optype = RegexOp, name = None, pattern = ''order'', case_sensitive = True,
        parameters = []\<rparr>"
      "LitMatcher False ''order'' False" lit_re True None]
    RegexOp_eval_cache [of "Engine_init 0"
      "\<lparr>optype = RegexOp, name = None, pattern = ''(order'', case_sensitive = True,
        parameters = []\<rparr>"
      "LitMatcher False [] False" lit_re True "Some ''Order 66''"]
  by (simp add: lit_simps searched_def Engine_init_def)

text \<open>
  C1, as far as it holds. Without an engine, and with an engine whose cache does not hold
  the pattern, \<^verbatim>\<open>eval\<close> on a text returns true exactly when the search of the
  pattern, compiled with \<^verbatim>\<open>re.IGNORECASE\<close> unless \<open>case_sensitive\<close> is true, finds
  it in the text (and raises \<^verbatim>\<open>re.error\<close> when the pattern does not compile). With
  an engine whose cache holds the pattern, the result is that of the stored matcher,
  whatever the flags it was compiled with.
\<close>

theorem RegexOp_eval_search:
  "(engine = None \<or> (\<exists>e. engine = Some e \<and> re_cache e (pattern self) = None) \<longrightarrow>
      fst (RegexOp_eval lib self (Some text) engine) =
        (case re_compile lib (pattern self) (\<not> case_sensitive self) of
           None \<Rightarrow> Inl re_error
         | Some r \<Rightarrow> Inr (PyBool (re_search lib r text)))) \<and>
   (\<forall>e r. engine = Some e \<and> re_cache e (pattern self) = Some r \<longrightarrow>
      fst (RegexOp_eval lib self (Some text) engine) = Inr (PyBool (re_search lib r text)))"
proof (intro conjI impI allI)
  assume "engine = None \<or> (\<exists>e. engine = Some e \<and> re_cache e (pattern self) = None)"
  then show "fst (RegexOp_eval lib self (Some text) engine) =
        (case re_compile lib (pattern self) (\<not> case_sensitive self) of
           None \<Rightarrow> Inl re_error
         | Some r \<Rightarrow> Inr (PyBool (re_search lib r text)))"
  proof
    assume "engine = None"
    then show ?thesis
      by (simp add: RegexOp_eval_no_engine searched_def split: option.splits)
  next
    assume "\<exists>e. engine = Some e \<and> re_cache e (pattern self) = None"
    then obtain e where e: "engine = Some e" "re_cache e (pattern self) = None" by blast
    show ?thesis
    proof (cases "re_compile lib (pattern self) (\<not> case_sensitive self)")
      case None
      with e show ?thesis by (simp add: RegexOp_eval_miss_error)
    next
      case (Some r)
      with e show ?thesis by (simp add: RegexOp_eval_miss searched_def)
    qed
  qed
next
  fix e r
  assume "engine = Some e \<and> re_cache e (pattern self) = Some r"
  then show "fst (RegexOp_eval lib self (Some text) engine) = Inr (PyBool (re_search lib r text))"
    by (simp add: RegexOp_eval_hit searched_def)
qed

theorem RegexOp_eval_search_witness:
  "fst (RegexOp_eval lit_re
     \<lparr>optype = RegexOp, name = None, pattern = ''markman'', case_sensitive = False,
      parameters = []\<rparr> (Some ''the Markman order'') None) = Inr (PyBool True) \<and>
   fst (RegexOp_eval lit_re
     \<lparr>optype = RegexOp, name = None, pattern = ''markman'', case_sensitive = True,
      parameters = []\<rparr> (Some ''the Markman order'') (Some (Engine_init 0))) = Inr (PyBool False) \<and>
   fst (RegexOp_eval lit_re
     \<lparr>optype = RegexOp, name = None, pattern = ''markman'', case_sensitive = True,
      parameters = []\<rparr> (Some ''the Markman order'')
     (Some \<lparr>debuglevel = 0, dbconnection = None,
            re_cache = [''markman'' \<mapsto> LitMatcher False ''markman'' True]\<rparr>)) = Inr (PyBool True)"
  using RegexOp_eval_search [of None
      "\<lparr>optype = RegexOp, name = None, pattern = ''markman'', case_sensitive = False,
        parameters = []\<rparr>" lit_re "''the Markman order''"]
    RegexOp_eval_search [of "Some (Engine_init 0)"
      "\<lparr>optype = RegexOp, name = None, pattern = ''markman'', case_sensitive = True,
        parameters = []\<rparr>" lit_re "''the Markman order''"]
    RegexOp_eval_search [of
      "Some \<lparr>debuglevel = 0, dbconnection = None,
            re_cache = [''markman'' \<mapsto> LitMatcher False ''markman'' True]\<rparr>"
      "\<lparr>optype = RegexOp, name = None, pattern = ''markman'', case_sensitive = True,
        parameters = []\<rparr>" lit_re "''the Markman order''"]
  by (simp add: lit_simps Engine_init_def)

text \<open>
  C1 as stated fails for a cache warmed by \<^verbatim>\<open>Engine.new_op\<close>: the object built
  by \<^verbatim>\<open>new_op(RegexOp, pattern="markman")\<close> has \<open>case_sensitive = False\<close>, the
  case-insensitive search finds \<^verbatim>\<open>markman\<close> in the text, and \<^verbatim>\<open>eval\<close> with that
  engine returns false.
\<close>

theorem RegexOp_eval_prewarmed_counterexample:
  "new_op lit_re (Engine_init 0) [] (Some RegexOp)
     \<lparr>kw_name = None, kw_pattern = Some ''markman'', kw_case_sensitive = None\<rparr> =
     (Inr 1,
      \<lparr>debuglevel = 0, dbconnection = None,
       re_cache = [''markman'' \<mapsto> LitMatcher False ''markman'' False]\<rparr>,
      [(1, \<lparr>optype = RegexOp, name = None, pattern = ''markman'', case_sensitive = False,
            parameters = []\<rparr>)], 1) \<and>
   fst (RegexOp_eval lit_re
     \<lparr>optype = RegexOp, name = None, pattern = ''markman'', case_sensitive = False,
      parameters = []\<rparr>
     (Some ''the Markman order'')
     (Some \<lparr>debuglevel = 0, dbconnection = None,
            re_cache = [''markman'' \<mapsto> LitMatcher False ''markman'' False]\<rparr>)) =
     Inr (PyBool False) \<and>
   re_compile lit_re ''markman'' True = Some (LitMatcher False ''markman'' True) \<and>
   re_search lit_re (LitMatcher False ''markman'' True) ''the Markman order''"
  by (simp add: new_op_def new_object_def cache_regex_def RegexOp_eval_def lit_simps
      Engine_init_def fresh_id_def)

subsection \<open>Construction through the engine\<close>

lemma fold_max_ge: "a \<le> fold max xs (a::nat)"
  by (induction xs arbitrary: a) (auto intro: order_trans [OF max.cobounded2])

lemma fold_max_mem: "x \<in> set xs \<Longrightarrow> x \<le> fold max xs (a::nat)"
proof (induction xs arbitrary: a)
  case Nil
  then show ?case by simp
next
  case (Cons y ys)
  show ?case
  proof (cases "x = y")
    case True
    have "y \<le> max y a" by simp
    also have "\<dots> \<le> fold max ys (max y a)" by (rule fold_max_ge)
    finally show ?thesis using True by simp
  next
    case False
    with Cons show ?thesis by simp
  qed
qed

lemma fresh_id_fresh: "map_of s (fresh_id s) = None"
proof -
  have "fresh_id s \<notin> fst ` set s"
  proof
    assume "fresh_id s \<in> fst ` set s"
    then have "fresh_id s \<in> set (map fst s)" by simp
    then have "fresh_id s \<le> fold max (map fst s) 0" by (rule fold_max_mem)
    then show False by (simp add: fresh_id_def)
  qed
  then show ?thesis by (simp add: map_of_eq_None_iff)
qed

lemma map_of_fresh_append: "map_of (s @ [(fresh_id s, row)]) (fresh_id s) = Some row"
  by (simp add: map_add_def fresh_id_fresh)

lemma new_op_RegexOp:
  "kw_pattern kw = Some p \<Longrightarrow> re_compile lib p False = Some r \<Longrightarrow>
   new_op lib e s (Some RegexOp) kw =
     (Inr (fresh_id s), e\<lparr>re_cache := (re_cache e)(p \<mapsto> r)\<rparr>,
      s @ [(fresh_id s,
            \<lparr>optype = RegexOp, name = kw_name kw, pattern = p,
             case_sensitive = (case kw_case_sensitive kw of None \<Rightarrow> False | Some b \<Rightarrow> b),
             parameters = []\<rparr>)], 1)"
  by (simp add: new_op_def new_object_def cache_regex_def)

text \<open>
  C9. \<^verbatim>\<open>Engine.new_op(RegexOp, pattern=p, ...)\<close> compiles \<open>p\<close> once, without
  \<^verbatim>\<open>re.IGNORECASE\<close>, and stores that matcher \<open>r\<close> under \<open>p\<close>, whatever
  \<open>case_sensitive\<close> the keywords give the object (false when they give none). The new
  object evaluated with that engine is searched with \<open>r\<close>, the case-sensitive matcher,
  and compiles nothing.
\<close>

theorem new_op_prewarms_case_sensitive:
  "kw_pattern kw = Some p \<Longrightarrow> re_compile lib p False = Some r \<Longrightarrow>
   row = \<lparr>optype = RegexOp, name = kw_name kw, pattern = p,
          case_sensitive = (case kw_case_sensitive kw of None \<Rightarrow> False | Some b \<Rightarrow> b),
          parameters = []\<rparr> \<Longrightarrow>
   new_op lib e s (Some RegexOp) kw =
     (Inr (fresh_id s), e\<lparr>re_cache := (re_cache e)(p \<mapsto> r)\<rparr>, s @ [(fresh_id s, row)], 1) \<and>
   map_of (s @ [(fresh_id s, row)]) (fresh_id s) = Some row \<and>
   RegexOp_eval lib row data (Some (e\<lparr>re_cache := (re_cache e)(p \<mapsto> r)\<rparr>)) =
     (searched lib r data, Some (e\<lparr>re_cache := (re_cache e)(p \<mapsto> r)\<rparr>), 0)"
  using new_op_RegexOp [of kw p lib r e s] map_of_fresh_append [of s row]
    RegexOp_eval_hit [of "e\<lparr>re_cache := (re_cache e)(p \<mapsto> r)\<rparr>" row r lib data]
  by simp

theorem new_op_prewarms_case_sensitive_witness:
  "new_op lit_re (Engine_init 0) [] (Some RegexOp)
     \<lparr>kw_name = None, kw_pattern = Some ''markman'', kw_case_sensitive = None\<rparr> =
     (Inr 1,
      \<lparr>debuglevel = 0, dbconnection = None,
       re_cache = [''markman'' \<mapsto> LitMatcher False ''markman'' False]\<rparr>,
      [(1, \<lparr>optype = RegexOp, name = None, pattern = ''markman'', case_sensitive = False,
            parameters = []\<rparr>)], 1) \<and>
   RegexOp_eval lit_re
     \<lparr>optype = RegexOp, name = None, pattern = ''markman'', case_sensitive = False,
      parameters = []\<rparr>
     (Some ''the Markman order'')
     (Some \<lparr>debuglevel = 0, dbconnection = None,
            re_cache = [''markman'' \<mapsto> LitMatcher False ''markman'' False]\<rparr>) =
     (Inr (PyBool False),
      Some \<lparr>debuglevel = 0, dbconnection = None,
            re_cache = [''markman'' \<mapsto> LitMatcher False ''markman'' False]\<rparr>, 0)"
  using new_op_prewarms_case_sensitive [of
      "\<lparr>kw_name = None, kw_pattern = Some ''markman'', kw_case_sensitive = None\<rparr>"
      "''markman''" lit_re "LitMatcher False ''markman'' False"
      "\<lparr>optype = RegexOp, name = None, pattern = ''markman'', case_sensitive = False,
        parameters = []\<rparr>"
      "Engine_init 0" "[]" "Some ''the Markman order''"]
  by (simp add: lit_simps searched_def Engine_init_def fresh_id_def)

subsection \<open>Two objects, one cache\<close>

text \<open>
  C7, as far as it holds. Two \<^verbatim>\<open>RegexOp\<close> objects with the same pattern \<open>p\<close>,
  evaluated one after the other on the same data with one engine (\<open>a\<close> is whichever
  comes first). If the cache does not hold \<open>p\<close> and the first object's compilation
  succeeds, there is exactly one call of \<^verbatim>\<open>re.compile\<close> and both calls have the same
  outcome. If the cache holds \<open>p\<close> already, nothing is compiled and both calls have the
  same outcome. If the first object's compilation fails, nothing is stored and both calls
  compile: two calls of \<^verbatim>\<open>re.compile\<close>.
\<close>

theorem eval_both_compiles_once:
  "pattern a = p \<Longrightarrow> pattern b = p \<Longrightarrow>
   (re_cache e p = None \<longrightarrow> re_compile lib p (\<not> case_sensitive a) = Some r \<longrightarrow>
      eval_both lib a b data e =
        (searched lib r data, searched lib r data,
         Some (e\<lparr>re_cache := (re_cache e)(p \<mapsto> r)\<rparr>), 1)) \<and>
   (re_cache e p = Some r \<longrightarrow>
      eval_both lib a b data e = (searched lib r data, searched lib r data, Some e, 0)) \<and>
   (re_cache e p = None \<longrightarrow> re_compile lib p (\<not> case_sensitive a) = None \<longrightarrow>
      fst (eval_both lib a b data e) = Inl re_error \<and>
      snd (snd (snd (eval_both lib a b data e))) = 2)"
proof (intro conjI impI)
  assume p: "pattern a = p" "pattern b = p"
  {
    assume "re_cache e p = None" "re_compile lib p (\<not> case_sensitive a) = Some r"
    with p have 1: "RegexOp_eval lib a data (Some e) =
        (searched lib r data, Some (e\<lparr>re_cache := (re_cache e)(p \<mapsto> r)\<rparr>), 1)"
      using RegexOp_eval_miss [of e a lib r data] by simp
    from p have 2: "RegexOp_eval lib b data (Some (e\<lparr>re_cache := (re_cache e)(p \<mapsto> r)\<rparr>)) =
        (searched lib r data, Some (e\<lparr>re_cache := (re_cache e)(p \<mapsto> r)\<rparr>), 0)"
      using RegexOp_eval_hit [of "e\<lparr>re_cache := (re_cache e)(p \<mapsto> r)\<rparr>" b r lib data] by simp
    show "eval_both lib a b data e =
        (searched lib r data, searched lib r data,
         Some (e\<lparr>re_cache := (re_cache e)(p \<mapsto> r)\<rparr>), 1)"
      by (simp add: eval_both_def 1 2)
  }
  {
    assume "re_cache e p = Some r"
    with p have "RegexOp_eval lib a data (Some e) = (searched lib r data, Some e, 0)"
      and "RegexOp_eval lib b data (Some e) = (searched lib r data, Some e, 0)"
      using RegexOp_eval_hit [of e a r lib data] RegexOp_eval_hit [of e b r lib data] by simp_all
    then show "eval_both lib a b data e = (searched lib r data, searched lib r data, Some e, 0)"
      by (simp add: eval_both_def)
  }
  {
    assume c: "re_cache e p = None" "re_compile lib p (\<not> case_sensitive a) = None"
    with p have 1: "RegexOp_eval lib a data (Some e) = (Inl re_error, Some e, 1)"
      using RegexOp_eval_miss_error [of e a lib data] by simp
    have 2: "snd (snd (RegexOp_eval lib b data (Some e))) = 1"
    proof (cases "re_compile lib (pattern b) (\<not> case_sensitive b)")
      case None
      with c p show ?thesis using RegexOp_eval_miss_error [of e b lib data] by simp
    next
      case (Some r')
      with c p show ?thesis using RegexOp_eval_miss [of e b lib r' data] by simp
    qed
    obtain r2 e2 n2 where 3: "RegexOp_eval lib b data (Some e) = (r2, e2, n2)"
      by (cases "RegexOp_eval lib b data (Some e)") auto
    with 2 have "n2 = 1" by simp
    with 3 show "fst (eval_both lib a b data e) = Inl re_error"
      and "snd (snd (snd (eval_both lib a b data e))) = 2"
      by (simp_all add: eval_both_def 1)
  }
qed

theorem eval_both_compiles_once_witness:
  "eval_both lit_re
     \<lparr>optype = RegexOp, name = None, pattern = ''order'', case_sensitive = False,
      parameters = []\<rparr>
     \<lparr>optype = RegexOp, name = Some ''second'', pattern = ''order'', case_sensitive = True,
      parameters = []\<rparr>
     (Some ''Order 66'') (Engine_init 0) =
     (Inr (PyBool True), Inr (PyBool True),
      Some \<lparr>debuglevel = 0, dbconnection = None,
            re_cache = [''order'' \<mapsto> LitMatcher False ''order'' True]\<rparr>, 1) \<and>
   eval_both lit_re
     \<lparr>optype = RegexOp, name = Some ''second'', pattern = ''order'', case_sensitive = True,
      parameters = []\<rparr>
     \<lparr>optype = RegexOp, name = None, pattern = ''order'', case_sensitive = False,
      parameters = []\<rparr>
     (Some ''Order 66'') (Engine_init 0) =
     (Inr (PyBool False), Inr (PyBool False),
      Some \<lparr>debuglevel = 0, dbconnection = None,
            re_cache = [''order'' \<mapsto> LitMatcher False ''order'' False]\<rparr>, 1)"
  using eval_both_compiles_once [of
      "\<lparr>optype = RegexOp, name = None, pattern = ''order'', case_sensitive = False,
        parameters = []\<rparr>" "''order''"
      "\<lparr>optype = RegexOp, name = Some ''second'', pattern = ''order'', case_sensitive = True,
        parameters = []\<rparr>"
      "Engine_init 0" lit_re "LitMatcher False ''order'' True" "Some ''Order 66''"]
    eval_both_compiles_once [of
      "\<lparr>optype = RegexOp, name = Some ''second'', pattern = ''order'', case_sensitive = True,
        parameters = []\<rparr>" "''order''"
      "\<lparr>optype = RegexOp, name = None, pattern = ''order'', case_sensitive = False,
        parameters = []\<rparr>"
      "Engine_init 0" lit_re "LitMatcher False ''order'' False" "Some ''Order 66''"]
  by (simp add: lit_simps searched_def Engine_init_def)

text \<open>
  C7 as stated fails when the cache already holds the pattern, as it does after
  \<^verbatim>\<open>Engine.new_op\<close> has built the objects: evaluating both then compiles nothing,
  not once.
\<close>

theorem eval_both_prewarmed_counterexample:
  "fst (snd (new_op lit_re (Engine_init 0) [] (Some RegexOp)
     \<lparr>kw_name = None, kw_pattern = Some ''order'', kw_case_sensitive = None\<rparr>)) =
     \<lparr>debuglevel = 0, dbconnection = None,
      re_cache = [''order'' \<mapsto> LitMatcher False ''order'' False]\<rparr> \<and>
   eval_both lit_re
     \<lparr>optype = RegexOp, name = None, pattern = ''order'', case_sensitive = False,
      parameters = []\<rparr>
     \<lparr>optype = RegexOp, name = Some ''second'', pattern = ''order'', case_sensitive = False,
      parameters = []\<rparr>
     (Some ''Order 66'')
     \<lparr>debuglevel = 0, dbconnection = None,
      re_cache = [''order'' \<mapsto> LitMatcher False ''order'' False]\<rparr> =
     (Inr (PyBool False), Inr (PyBool False),
      Some \<lparr>debuglevel = 0, dbconnection = None,
            re_cache = [''order'' \<mapsto> LitMatcher False ''order'' False]\<rparr>, 0) \<and>
   snd (snd (snd (eval_both lit_re
     \<lparr>optype = RegexOp, name = None, pattern = ''order'', case_sensitive = False,
      parameters = []\<rparr>
     \<lparr>optype = RegexOp, name = Some ''second'', pattern = ''order'', case_sensitive = False,
      parameters = []\<rparr>
     (Some ''Order 66'')
     \<lparr>debuglevel = 0, dbconnection = None,
      re_cache = [''order'' \<mapsto> LitMatcher False ''order'' False]\<rparr>))) \<noteq> 1"
  by (simp add: new_op_def new_object_def cache_regex_def eval_both_def RegexOp_eval_def
      lit_simps Engine_init_def fresh_id_def)

section \<open>The store operations\<close>

lemma map_of_addOperator_self:
  "map_of s self = Some row \<Longrightarrow>
   map_of (addOperator s self param) self = Some (row\<lparr>parameters := parameters row @ [param]\<rparr>)"
  by (induction s) (auto simp: addOperator_def split: if_splits)

lemma map_of_addOperator_other:
  "other \<noteq> self \<Longrightarrow> map_of (addOperator s self param) other = map_of s other"
  by (induction s) (auto simp: addOperator_def)

lemma map_fst_addOperator: "map fst (addOperator s self param) = map fst s"
  by (induction s) (auto simp: addOperator_def)

text \<open>
  C3. \<^verbatim>\<open>addParameter\<close> raises its \<^verbatim>\<open>ValueError\<close> (the specification's
  SelfReferenceError) exactly when the child is the object itself, and then the store,
  with the object's children, is as before. Otherwise it succeeds, the object's children
  are the old ones followed by the child, every other object is unchanged and no row is
  added or removed. Nothing but the direct self check is made: a child that already has
  the object as its parameter is accepted.
\<close>

theorem addParameter_self_reference:
  "(fst (addParameter s self param) =
      Inl (ValueError ''A rule cannot contain itself as a sub-rule!'') \<longleftrightarrow> param = self) \<and>
   (param = self \<longrightarrow> snd (addParameter s self param) = s) \<and>
   (param \<noteq> self \<longrightarrow>
      fst (addParameter s self param) = Inr () \<and>
      map fst (snd (addParameter s self param)) = map fst s \<and>
      (\<forall>row. map_of s self = Some row \<longrightarrow>
         map_of (snd (addParameter s self param)) self =
           Some (row\<lparr>parameters := parameters row @ [param]\<rparr>)) \<and>
      (\<forall>other. other \<noteq> self \<longrightarrow>
         map_of (snd (addParameter s self param)) other = map_of s other))"
  by (simp add: addParameter_def map_of_addOperator_self map_of_addOperator_other
      map_fst_addOperator)

theorem addParameter_self_reference_witness:
  "addParameter
     [(1, \<lparr>optype = AND, name = None, pattern = [], case_sensitive = False, parameters = [2]\<rparr>),
      (2, \<lparr>optype = OR, name = None, pattern = [], case_sensitive = False, parameters = []\<rparr>)]
     1 1 =
     (Inl (ValueError ''A rule cannot contain itself as a sub-rule!''),
      [(1, \<lparr>optype = AND, name = None, pattern = [], case_sensitive = False, parameters = [2]\<rparr>),
       (2, \<lparr>optype = OR, name = None, pattern = [], case_sensitive = False, parameters = []\<rparr>)]) \<and>
   addParameter
     [(1, \<lparr>optype = AND, name = None, pattern = [], case_sensitive = False, parameters = [2]\<rparr>),
      (2, \<lparr>optype = OR, name = None, pattern = [], case_sensitive = False, parameters = []\<rparr>)]
     2 1 =
     (Inr (),
      [(1, \<lparr>optype = AND, name = None, pattern = [], case_sensitive = False, parameters = [2]\<rparr>),
       (2, \<lparr>optype = OR, name = None, pattern = [], case_sensitive = False, parameters = [1]\<rparr>)])"
  using addParameter_self_reference [of
      "[(1, \<lparr>optype = AND, name = None, pattern = [], case_sensitive = False, parameters = [2]\<rparr>),
        (2, \<lparr>optype = OR, name = None, pattern = [], case_sensitive = False, parameters = []\<rparr>)]"
      1 1]
    addParameter_self_reference [of
      "[(1, \<lparr>optype = AND, name = None, pattern = [], case_sensitive = False, parameters = [2]\<rparr>),
        (2, \<lparr>optype = OR, name = None, pattern = [], case_sensitive = False, parameters = []\<rparr>)]"
      2 1]
  by (simp add: addParameter_def addOperator_def)

text \<open>
  C6, as far as it holds. \<^verbatim>\<open>Engine.get_op\<close> returns the object carrying the name
  when exactly one does. When none or more than one does, it fails, in both cases with
  the same \<^verbatim>\<open>AssertionError\<close> and the same message.
\<close>

theorem get_op_single_assertion:
  "(filter (\<lambda>(i, row). name row = nm) s = [(i, row)] \<longrightarrow> get_op s nm = Inr i) \<and>
   (length (filter (\<lambda>(i, row). name row = nm) s) \<noteq> 1 \<longrightarrow>
      get_op s nm =
        Inl (AssertionError ''Operator.selectBy(name=name) should return only one result.''))"
  by (simp add: get_op_def selectBy_name_def)

theorem get_op_single_assertion_witness:
  "get_op
     [(1, \<lparr>optype = AND, name = Some ''rule'', pattern = [], case_sensitive = False,
           parameters = []\<rparr>),
      (2, \<lparr>optype = OR, name = Some ''other'', pattern = [], case_sensitive = False,
           parameters = []\<rparr>)] (Some ''other'') = Inr 2 \<and>
   get_op
     [(1, \<lparr>optype = AND, name = Some ''rule'', pattern = [], case_sensitive = False,
           parameters = []\<rparr>),
      (2, \<lparr>optype = OR, name = Some ''other'', pattern = [], case_sensitive = False,
           parameters = []\<rparr>)] (Some ''none'') =
     Inl (AssertionError ''Operator.selectBy(name=name) should return only one result.'')"
  using get_op_single_assertion [of "Some ''other''"
      "[(1, \<lparr>optype = AND, name = Some ''rule'', pattern = [], case_sensitive = False,
            parameters = []\<rparr>),
        (2, \<lparr>optype = OR, name = Some ''other'', pattern = [], case_sensitive = False,
            parameters = []\<rparr>)]" 2
      "\<lparr>optype = OR, name = Some ''other'', pattern = [], case_sensitive = False,
            parameters = []\<rparr>"]
    get_op_single_assertion [of "Some ''none''"
      "[(1, \<lparr>optype = AND, name = Some ''rule'', pattern = [], case_sensitive = False,
            parameters = []\<rparr>),
        (2, \<lparr>optype = OR, name = Some ''other'', pattern = [], case_sensitive = False,
            parameters = []\<rparr>)]" 2
      "\<lparr>optype = OR, name = Some ''other'', pattern = [], case_sensitive = False,
            parameters = []\<rparr>"]
  by simp

text \<open>
  C6 as stated asks for two distinguishable errors. The lookup in a store with no object
  of the name and the lookup in a store with two of them fail with the same exception.
\<close>

theorem get_op_errors_counterexample:
  "get_op [] (Some ''rule'') =
     Inl (AssertionError ''Operator.selectBy(name=name) should return only one result.'') \<and>
   get_op
     [(1, \<lparr>optype = AND, name = Some ''rule'', pattern = [], case_sensitive = False,
           parameters = []\<rparr>),
      (2, \<lparr>optype = OR, name = Some ''rule'', pattern = [], case_sensitive = False,
           parameters = []\<rparr>)] (Some ''rule'') =
     Inl (AssertionError ''Operator.selectBy(name=name) should return only one result.'') \<and>
   get_op [] (Some ''rule'') =
   get_op
     [(1, \<lparr>optype = AND, name = Some ''rule'', pattern = [], case_sensitive = False,
           parameters = []\<rparr>),
      (2, \<lparr>optype = OR, name = Some ''rule'', pattern = [], case_sensitive = False,
           parameters = []\<rparr>)] (Some ''rule'')"
  by (simp add: get_op_def selectBy_name_def)

section \<open>Evaluation of the operator tree\<close>

lemmas eval_simps = dispatch_def with_parameters_def load_parameters_def enter_def ret_def
  raise_def and_then_def AND_eval_def OR_eval_def NOT_eval_def XOR_eval_def NAND_eval_def
  NOR_eval_def

lemma eval_Suc_row:
  "map_of s self = Some row \<Longrightarrow>
   eval (Suc k) lib s self data =
     enter self (dispatch lib s (\<lambda>param. eval k lib s param data) row data)"
  by simp

lemma eval_trace_head:
  "eval k lib s self data = Some (Inr v, t) \<Longrightarrow> \<exists>t'. t = self # t'"
  by (cases k) (auto simp: raise_def enter_def split: option.splits)

lemma with_parameters_loaded:
  "list_all (\<lambda>param. map_of s param \<noteq> None) (parameters row) \<Longrightarrow>
   with_parameters s row f = f (parameters row)"
  by (simp add: with_parameters_def load_parameters_def)

lemma with_parameters_missing:
  "\<not> list_all (\<lambda>param. map_of s param \<noteq> None) (parameters row) \<Longrightarrow>
   with_parameters s row f = Some (Inl SQLObjectNotFound, [])"
  by (simp add: with_parameters_def load_parameters_def raise_def)

text \<open>
  A logical operator with a parameter that has no row fails at the read of its
  parameters: no assertion is reached and no parameter is called.
\<close>

lemma eval_missing_parameter:
  "map_of s self = Some row \<Longrightarrow> optype row \<in> {AND, OR, NOT, XOR, NAND, NOR} \<Longrightarrow>
   \<not> list_all (\<lambda>param. map_of s param \<noteq> None) (parameters row) \<Longrightarrow>
   eval (Suc k) lib s self data = Some (Inl SQLObjectNotFound, [self])"
  by (auto simp: dispatch_def with_parameters_missing enter_def)

lemma and_then_value:
  "m = Some (Inr v, t) \<Longrightarrow>
   and_then m f = (case f v of None \<Rightarrow> None | Some (r, t') \<Rightarrow> Some (r, t @ t'))"
  by (simp add: and_then_def)

lemma and_then_error: "m = Some (Inl e, t) \<Longrightarrow> and_then m f = Some (Inl e, t)"
  by (simp add: and_then_def)

lemma XOR_eval_arity:
  "length ps \<noteq> 2 \<Longrightarrow>
   XOR_eval ev ps = Some (Inl (AssertionError ''XOR only works with two Operator parameters''), [])"
  by (simp add: XOR_eval_def raise_def)

lemma XOR_eval_values:
  "ev a = Some (Inr va, ta) \<Longrightarrow> ev b = Some (Inr vb, tb) \<Longrightarrow>
   XOR_eval ev [a, b] =
     Some (Inr (PyBool (truthy va \<noteq> truthy vb)),
           ta @ tb @ (if truthy vb then (if truthy va then tb @ ta else ta) else []))"
  by (simp add: XOR_eval_def Let_def and_then_value ret_def)

lemma XOR_eval_second_raises:
  "ev a = Some (Inr va, ta) \<Longrightarrow> ev b = Some (Inl e, tb) \<Longrightarrow>
   XOR_eval ev [a, b] = Some (Inl e, ta @ tb)"
  by (simp add: XOR_eval_def Let_def and_then_value and_then_error)

lemma XOR_eval_first_raises:
  "ev a = Some (Inl e, ta) \<Longrightarrow> XOR_eval ev [a, b] = Some (Inl e, ta)"
  by (simp add: XOR_eval_def Let_def and_then_error)

text \<open>
  C4. An \<^verbatim>\<open>XOR\<close> object whose parameters are all objects of the store. If their
  number is not two, it fails with its \<^verbatim>\<open>AssertionError\<close> (the specification's
  ArityError) before any parameter is evaluated. With two parameters \<open>a\<close> and \<open>b\<close> that
  return \<open>va\<close> and \<open>vb\<close>, it returns true exactly when one of the two is true, and both
  are evaluated: \<open>a\<close> first, then \<open>b\<close>, and once more those the \<^verbatim>\<open>elif\<close> condition
  calls again. That \<open>b\<close> is never skipped shows also in the last part: when \<open>a\<close>
  returns and \<open>b\<close> raises, the exception of \<open>b\<close> comes out, whatever \<open>a\<close> returned.
\<close>

theorem XOR_eval_exclusive:
  "map_of s self = Some row \<Longrightarrow> optype row = XOR \<Longrightarrow>
   list_all (\<lambda>param. map_of s param \<noteq> None) (parameters row) \<Longrightarrow>
   (length (parameters row) \<noteq> 2 \<longrightarrow>
      eval (Suc k) lib s self data =
        Some (Inl (AssertionError ''XOR only works with two Operator parameters''), [self])) \<and>
   (\<forall>a b va vb ta tb.
      parameters row = [a, b] \<and> eval k lib s a data = Some (Inr va, ta) \<and>
      eval k lib s b data = Some (Inr vb, tb) \<longrightarrow>
      eval (Suc k) lib s self data =
        Some (Inr (PyBool (truthy va \<noteq> truthy vb)),
              self # ta @ tb @ (if truthy vb then (if truthy va then tb @ ta else ta) else [])) \<and>
      a \<in> set ta \<and> b \<in> set tb) \<and>
   (\<forall>a b va e ta tb.
      parameters row = [a, b] \<and> eval k lib s a data = Some (Inr va, ta) \<and>
      eval k lib s b data = Some (Inl e, tb) \<longrightarrow>
      eval (Suc k) lib s self data = Some (Inl e, self # ta @ tb))"
proof (intro conjI impI allI)
  assume row: "map_of s self = Some row" "optype row = XOR"
    "list_all (\<lambda>param. map_of s param \<noteq> None) (parameters row)"
  then have ev: "eval (Suc k) lib s self data =
      enter self (XOR_eval (\<lambda>param. eval k lib s param data) (parameters row))"
    by (simp add: dispatch_def with_parameters_loaded)
  {
    assume "length (parameters row) \<noteq> 2"
    then show "eval (Suc k) lib s self data =
        Some (Inl (AssertionError ''XOR only works with two Operator parameters''), [self])"
      unfolding ev by (simp add: XOR_eval_arity enter_def)
  }
  {
    fix a b va vb ta tb
    assume h: "parameters row = [a, b] \<and> eval k lib s a data = Some (Inr va, ta) \<and>
      eval k lib s b data = Some (Inr vb, tb)"
    then have "XOR_eval (\<lambda>param. eval k lib s param data) [a, b] =
        Some (Inr (PyBool (truthy va \<noteq> truthy vb)),
           ta @ tb @ (if truthy vb then (if truthy va then tb @ ta else ta) else []))"
      by (intro XOR_eval_values) simp_all
    with h show "eval (Suc k) lib s self data =
        Some (Inr (PyBool (truthy va \<noteq> truthy vb)),
              self # ta @ tb @ (if truthy vb then (if truthy va then tb @ ta else ta) else []))"
      unfolding ev by (simp add: enter_def)
    from h show "a \<in> set ta" using eval_trace_head [of k lib s a data va ta] by auto
    from h show "b \<in> set tb" using eval_trace_head [of k lib s b data vb tb] by auto
  }
  {
    fix a b va e ta tb
    assume h: "parameters row = [a, b] \<and> eval k lib s a data = Some (Inr va, ta) \<and>
      eval k lib s b data = Some (Inl e, tb)"
    then have "XOR_eval (\<lambda>param. eval k lib s param data) [a, b] = Some (Inl e, ta @ tb)"
      by (intro XOR_eval_second_raises) simp_all
    with h show "eval (Suc k) lib s self data = Some (Inl e, self # ta @ tb)"
      unfolding ev by (simp add: enter_def)
  }
qed

theorem XOR_eval_exclusive_witness:
  "eval (Suc (Suc 0)) lit_re
     [(1, \<lparr>optype = XOR, name = None, pattern = [], case_sensitive = False,
           parameters = [2, 3]\<rparr>),
      (2, \<lparr>optype = AlwaysFalseOp, name = None, pattern = [], case_sensitive = False,
           parameters = []\<rparr>),
      (3, \<lparr>optype = AlwaysTrueOp, name = None, pattern = [], case_sensitive = False,
           parameters = []\<rparr>),
      (4, \<lparr>optype = XOR, name = None, pattern = [], case_sensitive = False,
           parameters = [3, 3]\<rparr>),
      (5, \<lparr>optype = XOR, name = None, pattern = [], case_sensitive = False,
           parameters = [2, 3, 3]\<rparr>)] 1 None = Some (Inr (PyBool True), [1, 2, 3, 2]) \<and>
   eval (Suc (Suc 0)) lit_re
     [(1, \<lparr>optype = XOR, name = None, pattern = [], case_sensitive = False,
           parameters = [2, 3]\<rparr>),
      (2, \<lparr>optype = AlwaysFalseOp, name = None, pattern = [], case_sensitive = False,
           parameters = []\<rparr>),
      (3, \<lparr>optype = AlwaysTrueOp, name = None, pattern = [], case_sensitive = False,
           parameters = []\<rparr>),
      (4, \<lparr>optype = XOR, name = None, pattern = [], case_sensitive = False,
           parameters = [3, 3]\<rparr>),
      (5, \<lparr>optype = XOR, name = None, pattern = [], case_sensitive = False,
           parameters = [2, 3, 3]\<rparr>)] 4 None = Some (Inr (PyBool False), [4, 3, 3, 3, 3]) \<and>
   eval (Suc (Suc 0)) lit_re
     [(1, \<lparr>optype = XOR, name = None, pattern = [], case_sensitive = False,
           parameters = [2, 3]\<rparr>),
      (2, \<lparr>optype = AlwaysFalseOp, name = None, pattern = [], case_sensitive = False,
           parameters = []\<rparr>),
      (3, \<lparr>optype = AlwaysTrueOp, name = None, pattern = [], case_sensitive = False,
           parameters = []\<rparr>),
      (4, \<lparr>optype = XOR, name = None, pattern = [], case_sensitive = False,
           parameters = [3, 3]\<rparr>),
      (5, \<lparr>optype = XOR, name = None, pattern = [], case_sensitive = False,
           parameters = [2, 3, 3]\<rparr>)] 5 None =
     Some (Inl (AssertionError ''XOR only works with two Operator parameters''), [5])"
proof -
  let ?s = "[(1, \<lparr>optype = XOR, name = None, pattern = [], case_sensitive = False,
           parameters = [2, 3]\<rparr>),
      (2, \<lparr>optype = AlwaysFalseOp, name = None, pattern = [], case_sensitive = False,
           parameters = []\<rparr>),
      (3, \<lparr>optype = AlwaysTrueOp, name = None, pattern = [], case_sensitive = False,
           parameters = []\<rparr>),
      (4, \<lparr>optype = XOR, name = None, pattern = [], case_sensitive = False,
           parameters = [3, 3]\<rparr>),
      (5, \<lparr>optype = XOR, name = None, pattern = [], case_sensitive = False,
           parameters = [2, 3, 3]\<rparr>)] :: store"
  let ?row1 = "\<lparr>optype = XOR, name = None, pattern = [], case_sensitive = False,
        parameters = [2, 3]\<rparr>"
  let ?row4 = "\<lparr>optype = XOR, name = None, pattern = [], case_sensitive = False,
        parameters = [3, 3]\<rparr>"
  let ?row5 = "\<lparr>optype = XOR, name = None, pattern = [], case_sensitive = False,
        parameters = [2, 3, 3]\<rparr>"
  have "map_of ?s 1 = Some ?row1" and "optype ?row1 = XOR"
    and "list_all (\<lambda>param. map_of ?s param \<noteq> None) (parameters ?row1)" by simp_all
  note xor1 = XOR_eval_exclusive [OF this, of "Suc 0" lit_re None]
  have "parameters ?row1 = [2, 3] \<and>
      eval (Suc 0) lit_re ?s 2 None = Some (Inr (PyBool False), [2]) \<and>
      eval (Suc 0) lit_re ?s 3 None = Some (Inr (PyBool True), [3])"
    by (simp add: eval_simps)
  from xor1 [THEN conjunct2, THEN conjunct1, rule_format, OF this]
  have 1: "eval (Suc (Suc 0)) lit_re ?s 1 None = Some (Inr (PyBool True), [1, 2, 3, 2])"
    by simp
  have "map_of ?s 4 = Some ?row4" and "optype ?row4 = XOR"
    and "list_all (\<lambda>param. map_of ?s param \<noteq> None) (parameters ?row4)" by simp_all
  note xor4 = XOR_eval_exclusive [OF this, of "Suc 0" lit_re None]
  have "parameters ?row4 = [3, 3] \<and>
      eval (Suc 0) lit_re ?s 3 None = Some (Inr (PyBool True), [3]) \<and>
      eval (Suc 0) lit_re ?s 3 None = Some (Inr (PyBool True), [3])"
    by (simp add: eval_simps)
  from xor4 [THEN conjunct2, THEN conjunct1, rule_format, OF this]
  have 4: "eval (Suc (Suc 0)) lit_re ?s 4 None = Some (Inr (PyBool False), [4, 3, 3, 3, 3])"
    by simp
  have "map_of ?s 5 = Some ?row5" and "optype ?row5 = XOR"
    and "list_all (\<lambda>param. map_of ?s param \<noteq> None) (parameters ?row5)" by simp_all
  note xor5 = XOR_eval_exclusive [OF this, of "Suc 0" lit_re None]
  have "length (parameters ?row5) \<noteq> 2" by simp
  from xor5 [THEN conjunct1, rule_format, OF this]
  have 5: "eval (Suc (Suc 0)) lit_re ?s 5 None =
      Some (Inl (AssertionError ''XOR only works with two Operator parameters''), [5])" .
  from 1 4 5 show ?thesis by (intro conjI)
qed

lemma NOR_loop_single:
  "ev c = Some (Inr v, t) \<Longrightarrow> NOR_loop ev [c] = Some (Inr (PyBool (\<not> truthy v)), t)"
  by (simp add: and_then_value ret_def)

text \<open>
  C5. A \<^verbatim>\<open>NOT\<close> object whose parameters are all objects of the store. With more than
  one parameter it fails with its \<^verbatim>\<open>AssertionError\<close> (the specification's
  ArityError); with no parameter it returns true; with one parameter that returns \<open>v\<close>
  it returns true exactly when \<open>v\<close> is false (or \<^verbatim>\<open>None\<close>, which Python's
  \<^verbatim>\<open>if\<close> takes for false).
\<close>

theorem NOT_eval_negates:
  "map_of s self = Some row \<Longrightarrow> optype row = NOT \<Longrightarrow>
   list_all (\<lambda>param. map_of s param \<noteq> None) (parameters row) \<Longrightarrow>
   (length (parameters row) > 1 \<longrightarrow>
      eval (Suc k) lib s self data =
        Some (Inl (AssertionError ''NOT only works with one or zero Operator parameters''),
              [self])) \<and>
   (parameters row = [] \<longrightarrow>
      eval (Suc k) lib s self data = Some (Inr (PyBool True), [self])) \<and>
   (\<forall>c v t.
      parameters row = [c] \<and> eval k lib s c data = Some (Inr v, t) \<longrightarrow>
      eval (Suc k) lib s self data = Some (Inr (PyBool (\<not> truthy v)), self # t))"
proof (intro conjI impI allI)
  assume row: "map_of s self = Some row" "optype row = NOT"
    "list_all (\<lambda>param. map_of s param \<noteq> None) (parameters row)"
  then have ev: "eval (Suc k) lib s self data =
      enter self (NOT_eval (\<lambda>param. eval k lib s param data) (parameters row))"
    by (simp add: dispatch_def with_parameters_loaded)
  {
    assume "length (parameters row) > 1"
    then show "eval (Suc k) lib s self data =
        Some (Inl (AssertionError ''NOT only works with one or zero Operator parameters''),
              [self])"
      unfolding ev by (simp add: NOT_eval_def raise_def enter_def)
  }
  {
    assume "parameters row = []"
    then show "eval (Suc k) lib s self data = Some (Inr (PyBool True), [self])"
      unfolding ev by (simp add: NOT_eval_def ret_def enter_def)
  }
  {
    fix c v t
    assume h: "parameters row = [c] \<and> eval k lib s c data = Some (Inr v, t)"
    then have "NOR_loop (\<lambda>param. eval k lib s param data) [c] =
        Some (Inr (PyBool (\<not> truthy v)), t)"
      by (intro NOR_loop_single) simp
    with h show "eval (Suc k) lib s self data = Some (Inr (PyBool (\<not> truthy v)), self # t)"
      unfolding ev by (simp add: NOT_eval_def enter_def)
  }
qed

theorem NOT_eval_negates_witness:
  "eval (Suc (Suc 0)) lit_re
     [(1, \<lparr>optype = NOT, name = None, pattern = [], case_sensitive = False,
           parameters = [2]\<rparr>),
      (2, \<lparr>optype = AlwaysTrueOp, name = None, pattern = [], case_sensitive = False,
           parameters = []\<rparr>),
      (3, \<lparr>optype = NOT, name = None, pattern = [], case_sensitive = False,
           parameters = []\<rparr>),
      (4, \<lparr>optype = NOT, name = None, pattern = [], case_sensitive = False,
           parameters = [2, 3]\<rparr>)] 1 None = Some (Inr (PyBool False), [1, 2]) \<and>
   eval (Suc (Suc 0)) lit_re
     [(1, \<lparr>optype = NOT, name = None, pattern = [], case_sensitive = False,
           parameters = [2]\<rparr>),
      (2, \<lparr>optype = AlwaysTrueOp, name = None, pattern = [], case_sensitive = False,
           parameters = []\<rparr>),
      (3, \<lparr>optype = NOT, name = None, pattern = [], case_sensitive = False,
           parameters = []\<rparr>),
      (4, \<lparr>optype = NOT, name = None, pattern = [], case_sensitive = False,
           parameters = [2, 3]\<rparr>)] 3 None = Some (Inr (PyBool True), [3]) \<and>
   eval (Suc (Suc 0)) lit_re
     [(1, \<lparr>optype = NOT, name = None, pattern = [], case_sensitive = False,
           parameters = [2]\<rparr>),
      (2, \<lparr>optype = AlwaysTrueOp, name = None, pattern = [], case_sensitive = False,
           parameters = []\<rparr>),
      (3, \<lparr>optype = NOT, name = None, pattern = [], case_sensitive = False,
           parameters = []\<rparr>),
      (4, \<lparr>optype = NOT, name = None, pattern = [], case_sensitive = False,
           parameters = [2, 3]\<rparr>)] 4 None =
     Some (Inl (AssertionError ''NOT only works with one or zero Operator parameters''), [4])"
proof -
  let ?s = "[(1, \<lparr>optype = NOT, name = None, pattern = [], case_sensitive = False,
           parameters = [2]\<rparr>),
      (2, \<lparr>optype = AlwaysTrueOp, name = None, pattern = [], case_sensitive = False,
           parameters = []\<rparr>),
      (3, \<lparr>optype = NOT, name = None, pattern = [], case_sensitive = False,
           parameters = []\<rparr>),
      (4, \<lparr>optype = NOT, name = None, pattern = [], case_sensitive = False,
           parameters = [2, 3]\<rparr>)] :: store"
  let ?row1 = "\<lparr>optype = NOT, name = None, pattern = [], case_sensitive = False,
        parameters = [2]\<rparr>"
  let ?row3 = "\<lparr>optype = NOT, name = None, pattern = [], case_sensitive = False,
        parameters = []\<rparr>"
  let ?row4 = "\<lparr>optype = NOT, name = None, pattern = [], case_sensitive = False,
        parameters = [2, 3]\<rparr>"
  have "map_of ?s 1 = Some ?row1" and "optype ?row1 = NOT"
    and "list_all (\<lambda>param. map_of ?s param \<noteq> None) (parameters ?row1)" by simp_all
  note not1 = NOT_eval_negates [OF this, of "Suc 0" lit_re None]
  have "parameters ?row1 = [2] \<and>
      eval (Suc 0) lit_re ?s 2 None = Some (Inr (PyBool True), [2])"
    by (simp add: eval_simps)
  from not1 [THEN conjunct2, THEN conjunct2, rule_format, OF this]
  have 1: "eval (Suc (Suc 0)) lit_re ?s 1 None = Some (Inr (PyBool False), [1, 2])"
    by simp
  have "map_of ?s 3 = Some ?row3" and "optype ?row3 = NOT"
    and "list_all (\<lambda>param. map_of ?s param \<noteq> None) (parameters ?row3)" by simp_all
  note not3 = NOT_eval_negates [OF this, of "Suc 0" lit_re None]
  have "parameters ?row3 = []" by simp
  from not3 [THEN conjunct2, THEN conjunct1, rule_format, OF this]
  have 3: "eval (Suc (Suc 0)) lit_re ?s 3 None = Some (Inr (PyBool True), [3])" .
  have "map_of ?s 4 = Some ?row4" and "optype ?row4 = NOT"
    and "list_all (\<lambda>param. map_of ?s param \<noteq> None) (parameters ?row4)" by simp_all
  note not4 = NOT_eval_negates [OF this, of "Suc 0" lit_re None]
  have "length (parameters ?row4) > 1" by simp
  from not4 [THEN conjunct1, rule_format, OF this]
  have 4: "eval (Suc (Suc 0)) lit_re ?s 4 None =
      Some (Inl (AssertionError ''NOT only works with one or zero Operator parameters''), [4])" .
  from 1 3 4 show ?thesis by (intro conjI)
qed

lemma eval_Operator:
  "map_of s c = Some crow \<Longrightarrow> optype crow = Operator \<Longrightarrow>
   eval (Suc k) lib s c data = Some (Inr PyNone, [c])"
  by (simp add: dispatch_def ret_def enter_def)

lemma eval_AlwaysTrueOp:
  "map_of s d = Some drow \<Longrightarrow> optype drow = AlwaysTrueOp \<Longrightarrow>
   eval (Suc k) lib s d data = Some (Inr (PyBool True), [d])"
  by (simp add: dispatch_def ret_def enter_def)

lemma eval_AND:
  "map_of s self = Some row \<Longrightarrow> optype row = AND \<Longrightarrow>
   list_all (\<lambda>param. map_of s param \<noteq> None) (parameters row) \<Longrightarrow>
   eval (Suc k) lib s self data =
     enter self (AND_loop (\<lambda>param. eval k lib s param data) (parameters row))"
  by (simp add: dispatch_def with_parameters_loaded AND_eval_def)

lemma eval_OR:
  "map_of s self = Some row \<Longrightarrow> optype row = OR \<Longrightarrow>
   list_all (\<lambda>param. map_of s param \<noteq> None) (parameters row) \<Longrightarrow>
   eval (Suc k) lib s self data =
     enter self (OR_loop (\<lambda>param. eval k lib s param data) (parameters row))"
  by (simp add: dispatch_def with_parameters_loaded OR_eval_def)

text \<open>
  C10. The \<^verbatim>\<open>eval\<close> of an object \<open>c\<close> of the base class \<^verbatim>\<open>Operator\<close> returns
  \<^verbatim>\<open>None\<close> and raises nothing. A logical parent, its parameters being objects of the
  store, takes that for false. An \<^verbatim>\<open>AND\<close> whose first parameter is \<open>c\<close> returns false
  there, and so does an \<^verbatim>\<open>AND\<close> that reaches \<open>c\<close> after an \<^verbatim>\<open>AlwaysTrueOp\<close>,
  while the \<^verbatim>\<open>AND\<close> of the \<^verbatim>\<open>AlwaysTrueOp\<close> alone returns true. An \<^verbatim>\<open>OR\<close>
  passes over \<open>c\<close> as over a false parameter: with nothing after it the result is
  false, with an \<^verbatim>\<open>AlwaysTrueOp\<close> after it the result is true.
\<close>

theorem Operator_eval_returns_None:
  "map_of s c = Some crow \<Longrightarrow> optype crow = Operator \<Longrightarrow>
   eval (Suc k) lib s c data = Some (Inr PyNone, [c]) \<and>
   (\<forall>self row rest.
      map_of s self = Some row \<and> optype row = AND \<and> parameters row = c # rest \<and>
      list_all (\<lambda>param. map_of s param \<noteq> None) rest \<longrightarrow>
      eval (Suc (Suc k)) lib s self data = Some (Inr (PyBool False), [self, c])) \<and>
   (\<forall>self row d drow.
      map_of s self = Some row \<and> optype row = AND \<and> parameters row = [d, c] \<and>
      map_of s d = Some drow \<and> optype drow = AlwaysTrueOp \<longrightarrow>
      eval (Suc (Suc k)) lib s self data = Some (Inr (PyBool False), [self, d, c])) \<and>
   (\<forall>self row d drow.
      map_of s self = Some row \<and> optype row = AND \<and> parameters row = [d] \<and>
      map_of s d = Some drow \<and> optype drow = AlwaysTrueOp \<longrightarrow>
      eval (Suc (Suc k)) lib s self data = Some (Inr (PyBool True), [self, d])) \<and>
   (\<forall>self row.
      map_of s self = Some row \<and> optype row = OR \<and> parameters row = [c] \<longrightarrow>
      eval (Suc (Suc k)) lib s self data = Some (Inr (PyBool False), [self, c])) \<and>
   (\<forall>self row d drow.
      map_of s self = Some row \<and> optype row = OR \<and> parameters row = [c, d] \<and>
      map_of s d = Some drow \<and> optype drow = AlwaysTrueOp \<longrightarrow>
      eval (Suc (Suc k)) lib s self data = Some (Inr (PyBool True), [self, c, d]))"
proof (intro conjI impI allI)
  assume c: "map_of s c = Some crow" "optype crow = Operator"
  then have 1: "eval (Suc k) lib s c data = Some (Inr PyNone, [c])"
    by (rule eval_Operator)
  then show "eval (Suc k) lib s c data = Some (Inr PyNone, [c])" .
  {
    fix self row rest
    assume h: "map_of s self = Some row \<and> optype row = AND \<and> parameters row = c # rest \<and>
      list_all (\<lambda>param. map_of s param \<noteq> None) rest"
    with c have "eval (Suc (Suc k)) lib s self data =
        enter self (AND_loop (\<lambda>param. eval (Suc k) lib s param data) (parameters row))"
      by (intro eval_AND) simp_all
    with h show "eval (Suc (Suc k)) lib s self data = Some (Inr (PyBool False), [self, c])"
      by (simp only: 1 AND_loop.simps and_then_value) (simp add: ret_def enter_def)
  }
  {
    fix self row d drow
    assume h: "map_of s self = Some row \<and> optype row = AND \<and> parameters row = [d, c] \<and>
      map_of s d = Some drow \<and> optype drow = AlwaysTrueOp"
    then have 2: "eval (Suc k) lib s d data = Some (Inr (PyBool True), [d])"
      using eval_AlwaysTrueOp [of s d drow k lib data] by blast
    from h c have "eval (Suc (Suc k)) lib s self data =
        enter self (AND_loop (\<lambda>param. eval (Suc k) lib s param data) (parameters row))"
      by (intro eval_AND) simp_all
    with h show "eval (Suc (Suc k)) lib s self data = Some (Inr (PyBool False), [self, d, c])"
      by (simp only: 1 2 AND_loop.simps and_then_value) (simp add: ret_def enter_def)
  }
  {
    fix self row d drow
    assume h: "map_of s self = Some row \<and> optype row = AND \<and> parameters row = [d] \<and>
      map_of s d = Some drow \<and> optype drow = AlwaysTrueOp"
    then have 2: "eval (Suc k) lib s d data = Some (Inr (PyBool True), [d])"
      using eval_AlwaysTrueOp [of s d drow k lib data] by blast
    from h have "eval (Suc (Suc k)) lib s self data =
        enter self (AND_loop (\<lambda>param. eval (Suc k) lib s param data) (parameters row))"
      by (intro eval_AND) simp_all
    with h show "eval (Suc (Suc k)) lib s self data = Some (Inr (PyBool True), [self, d])"
      by (simp only: 2 AND_loop.simps and_then_value) (simp add: ret_def enter_def)
  }
  {
    fix self row
    assume h: "map_of s self = Some row \<and> optype row = OR \<and> parameters row = [c]"
    with c have "eval (Suc (Suc k)) lib s self data =
        enter self (OR_loop (\<lambda>param. eval (Suc k) lib s param data) (parameters row))"
      by (intro eval_OR) simp_all
    with h show "eval (Suc (Suc k)) lib s self data = Some (Inr (PyBool False), [self, c])"
      by (simp only: 1 OR_loop.simps and_then_value) (simp add: ret_def enter_def)
  }
  {
    fix self row d drow
    assume h: "map_of s self = Some row \<and> optype row = OR \<and> parameters row = [c, d] \<and>
      map_of s d = Some drow \<and> optype drow = AlwaysTrueOp"
    then have 2: "eval (Suc k) lib s d data = Some (Inr (PyBool True), [d])"
      using eval_AlwaysTrueOp [of s d drow k lib data] by blast
    from h c have "eval (Suc (Suc k)) lib s self data =
        enter self (OR_loop (\<lambda>param. eval (Suc k) lib s param data) (parameters row))"
      by (intro eval_OR) simp_all
    with h show "eval (Suc (Suc k)) lib s self data = Some (Inr (PyBool True), [self, c, d])"
      by (simp only: 1 2 OR_loop.simps and_then_value) (simp add: ret_def enter_def)
  }
qed

theorem Operator_eval_returns_None_witness:
  "eval (Suc 0) lit_re
     [(1, \<lparr>optype = AND, name = None, pattern = [], case_sensitive = False,
           parameters = [2, 3]\<rparr>),
      (2, \<lparr>optype = Operator, name = None, pattern = [], case_sensitive = False,
           parameters = []\<rparr>),
      (3, \<lparr>optype = AlwaysTrueOp, name = None, pattern = [], case_sensitive = False,
           parameters = []\<rparr>),
      (4, \<lparr>optype = OR, name = None, pattern = [], case_sensitive = False,
           parameters = [2, 3]\<rparr>),
      (5, \<lparr>optype = AND, name = None, pattern = [], case_sensitive = False,
           parameters = [3, 2]\<rparr>),
      (6, \<lparr>optype = AND, name = None, pattern = [], case_sensitive = False,
           parameters = [3]\<rparr>),
      (7, \<lparr>optype = OR, name = None, pattern = [], case_sensitive = False,
           parameters = [2]\<rparr>)] 2 None = Some (Inr PyNone, [2]) \<and>
   eval (Suc (Suc 0)) lit_re
     [(1, \<lparr>optype = AND, name = None, pattern = [], case_sensitive = False,
           parameters = [2, 3]\<rparr>),
      (2, \<lparr>optype = Operator, name = None, pattern = [], case_sensitive = False,
           parameters = []\<rparr>),
      (3, \<lparr>optype = AlwaysTrueOp, name = None, pattern = [], case_sensitive = False,
           parameters = []\<rparr>),
      (4, \<lparr>optype = OR, name = None, pattern = [], case_sensitive = False,
           parameters = [2, 3]\<rparr>),
      (5, \<lparr>optype = AND, name = None, pattern = [], case_sensitive = False,
           parameters = [3, 2]\<rparr>),
      (6, \<lparr>optype = AND, name = None, pattern = [], case_sensitive = False,
           parameters = [3]\<rparr>),
      (7, \<lparr>optype = OR, name = None, pattern = [], case_sensitive = False,
           parameters = [2]\<rparr>)] 1 None = Some (Inr (PyBool False), [1, 2]) \<and>
   eval (Suc (Suc 0)) lit_re
     [(1, \<lparr>optype = AND, name = None, pattern = [], case_sensitive = False,
           parameters = [2, 3]\<rparr>),
      (2, \<lparr>optype = Operator, name = None, pattern = [], case_sensitive = False,
           parameters = []\<rparr>),
      (3, \<lparr>optype = AlwaysTrueOp, name = None, pattern = [], case_sensitive = False,
           parameters = []\<rparr>),
      (4, \<lparr>optype = OR, name = None, pattern = [], case_sensitive = False,
           parameters = [2, 3]\<rparr>),
      (5, \<lparr>optype = AND, name = None, pattern = [], case_sensitive = False,
           parameters = [3, 2]\<rparr>),
      (6, \<lparr>optype = AND, name = None, pattern = [], case_sensitive = False,
           parameters = [3]\<rparr>),
      (7, \<lparr>optype = OR, name = None, pattern = [], case_sensitive = False,
           parameters = [2]\<rparr>)] 5 None = Some (Inr (PyBool False), [5, 3, 2]) \<and>
   eval (Suc (Suc 0)) lit_re
     [(1, \<lparr>optype = AND, name = None, pattern = [], case_sensitive = False,
           parameters = [2, 3]\<rparr>),
      (2, \<lparr>optype = Operator, name = None, pattern = [], case_sensitive = False,
           parameters = []\<rparr>),
      (3, \<lparr>optype = AlwaysTrueOp, name = None, pattern = [], case_sensitive = False,
           parameters = []\<rparr>),
      (4, \<lparr>optype = OR, name = None, pattern = [], case_sensitive = False,
           parameters = [2, 3]\<rparr>),
      (5, \<lparr>optype = AND, name = None, pattern = [], case_sensitive = False,
           parameters = [3, 2]\<rparr>),
      (6, \<lparr>optype = AND, name = None, pattern = [], case_sensitive = False,
           parameters = [3]\<rparr>),
      (7, \<lparr>optype = OR, name = None, pattern = [], case_sensitive = False,
           parameters = [2]\<rparr>)] 6 None = Some (Inr (PyBool True), [6, 3]) \<and>
   eval (Suc (Suc 0)) lit_re
     [(1, \<lparr>optype = AND, name = None, pattern = [], case_sensitive = False,
           parameters = [2, 3]\<rparr>),
      (2, \<lparr>optype = Operator, name = None, pattern = [], case_sensitive = False,
           parameters = []\<rparr>),
      (3, \<lparr>optype = AlwaysTrueOp, name = None, pattern = [], case_sensitive = False,
           parameters = []\<rparr>),
      (4, \<lparr>optype = OR, name = None, pattern = [], case_sensitive = False,
           parameters = [2, 3]\<rparr>),
      (5, \<lparr>optype = AND, name = None, pattern = [], case_sensitive = False,
           parameters = [3, 2]\<rparr>),
      (6, \<lparr>optype = AND, name = None, pattern = [], case_sensitive = False,
           parameters = [3]\<rparr>),
      (7, \<lparr>optype = OR, name = None, pattern = [], case_sensitive = False,
           parameters = [2]\<rparr>)] 7 None = Some (Inr (PyBool False), [7, 2]) \<and>
   eval (Suc (Suc 0)) lit_re
     [(1, \<lparr>optype = AND, name = None, pattern = [], case_sensitive = False,
           parameters = [2, 3]\<rparr>),
      (2, \<lparr>optype = Operator, name = None, pattern = [], case_sensitive = False,
           parameters = []\<rparr>),
      (3, \<lparr>optype = AlwaysTrueOp, name = None, pattern = [], case_sensitive = False,
           parameters = []\<rparr>),
      (4, \<lparr>optype = OR, name = None, pattern = [], case_sensitive = False,
           parameters = [2, 3]\<rparr>),
      (5, \<lparr>optype = AND, name = None, pattern = [], case_sensitive = False,
           parameters = [3, 2]\<rparr>),
      (6, \<lparr>optype = AND, name = None, pattern = [], case_sensitive = False,
           parameters = [3]\<rparr>),
      (7, \<lparr>optype = OR, name = None, pattern = [], case_sensitive = False,
           parameters = [2]\<rparr>)] 4 None = Some (Inr (PyBool True), [4, 2, 3])"
proof -
  let ?s = "[(1, \<lparr>optype = AND, name = None, pattern = [], case_sensitive = False,
           parameters = [2, 3]\<rparr>),
      (2, \<lparr>optype = Operator, name = None, pattern = [], case_sensitive = False,
           parameters = []\<rparr>),
      (3, \<lparr>optype = AlwaysTrueOp, name = None, pattern = [], case_sensitive = False,
           parameters = []\<rparr>),
      (4, \<lparr>optype = OR, name = None, pattern = [], case_sensitive = False,
           parameters = [2, 3]\<rparr>),
      (5, \<lparr>optype = AND, name = None, pattern = [], case_sensitive = False,
           parameters = [3, 2]\<rparr>),
      (6, \<lparr>optype = AND, name = None, pattern = [], case_sensitive = False,
           parameters = [3]\<rparr>),
      (7, \<lparr>optype = OR, name = None, pattern = [], case_sensitive = False,
           parameters = [2]\<rparr>)] :: store"
  let ?c = "\<lparr>optype = Operator, name = None, pattern = [], case_sensitive = False,
        parameters = []\<rparr>"
  let ?d = "\<lparr>optype = AlwaysTrueOp, name = None, pattern = [], case_sensitive = False,
        parameters = []\<rparr>"
  have "map_of ?s 2 = Some ?c" and "optype ?c = Operator" by simp_all
  note base = Operator_eval_returns_None [OF this, of 0 lit_re None]
  note 2 = base [THEN conjunct1]
  have "map_of ?s 1 = Some \<lparr>optype = AND, name = None, pattern = [], case_sensitive = False,
        parameters = [2, 3]\<rparr> \<and>
      optype \<lparr>optype = AND, name = None, pattern = [], case_sensitive = False,
        parameters = [2, 3]\<rparr> = AND \<and>
      parameters \<lparr>optype = AND, name = None, pattern = [], case_sensitive = False,
        parameters = [2, 3]\<rparr> = 2 # [3] \<and>
      list_all (\<lambda>param. map_of ?s param \<noteq> None) [3]" by simp
  note 1 = base [THEN conjunct2, THEN conjunct1, rule_format, OF this]
  have "map_of ?s 5 = Some \<lparr>optype = AND, name = None, pattern = [], case_sensitive = False,
        parameters = [3, 2]\<rparr> \<and>
      optype \<lparr>optype = AND, name = None, pattern = [], case_sensitive = False,
        parameters = [3, 2]\<rparr> = AND \<and>
      parameters \<lparr>optype = AND, name = None, pattern = [], case_sensitive = False,
        parameters = [3, 2]\<rparr> = [3, 2] \<and>
      map_of ?s 3 = Some ?d \<and> optype ?d = AlwaysTrueOp" by simp
  note 5 = base [THEN conjunct2, THEN conjunct2, THEN conjunct1, rule_format, OF this]
  have "map_of ?s 6 = Some \<lparr>optype = AND, name = None, pattern = [], case_sensitive = False,
        parameters = [3]\<rparr> \<and>
      optype \<lparr>optype = AND, name = None, pattern = [], case_sensitive = False,
        parameters = [3]\<rparr> = AND \<and>
      parameters \<lparr>optype = AND, name = None, pattern = [], case_sensitive = False,
        parameters = [3]\<rparr> = [3] \<and>
      map_of ?s 3 = Some ?d \<and> optype ?d = AlwaysTrueOp" by simp
  note 6 = base [THEN conjunct2, THEN conjunct2, THEN conjunct2, THEN conjunct1, rule_format,
      OF this]
  have "map_of ?s 7 = Some \<lparr>optype = OR, name = None, pattern = [], case_sensitive = False,
        parameters = [2]\<rparr> \<and>
      optype \<lparr>optype = OR, name = None, pattern = [], case_sensitive = False,
        parameters = [2]\<rparr> = OR \<and>
      parameters \<lparr>optype = OR, name = None, pattern = [], case_sensitive = False,
        parameters = [2]\<rparr> = [2]" by simp
  note 7 = base [THEN conjunct2, THEN conjunct2, THEN conjunct2, THEN conjunct2,
      THEN conjunct1, rule_format, OF this]
  have "map_of ?s 4 = Some \<lparr>optype = OR, name = None, pattern = [], case_sensitive = False,
        parameters = [2, 3]\<rparr> \<and>
      optype \<lparr>optype = OR, name = None, pattern = [], case_sensitive = False,
        parameters = [2, 3]\<rparr> = OR \<and>
      parameters \<lparr>optype = OR, name = None, pattern = [], case_sensitive = False,
        parameters = [2, 3]\<rparr> = [2, 3] \<and>
      map_of ?s 3 = Some ?d \<and> optype ?d = AlwaysTrueOp" by simp
  note 4 = base [THEN conjunct2, THEN conjunct2, THEN conjunct2, THEN conjunct2,
      THEN conjunct2, rule_format, OF this]
  from 2 1 5 6 7 4 show ?thesis by (intro conjI)
qed

section \<open>What an evaluation depends on\<close>

text \<open>
  A deeper recursion bound does not change an outcome that a smaller one has reached.
\<close>

lemma and_then_mono:
  assumes "and_then m f = Some x"
    and "\<And>y. m = Some y \<Longrightarrow> m' = Some y"
    and "\<And>v y. f v = Some y \<Longrightarrow> f' v = Some y"
  shows "and_then m' f' = Some x"
proof (cases m)
  case None
  with assms(1) show ?thesis by (simp add: and_then_def)
next
  case (Some y)
  then have m': "m' = Some y" by (rule assms(2))
  obtain r t where y: "y = (r, t)" by (cases y)
  show ?thesis
  proof (cases r)
    case (Inl e)
    with assms(1) Some m' y show ?thesis by (auto simp: and_then_def)
  next
    case (Inr v)
    with assms(1) Some y obtain z where z: "f v = Some z"
      by (auto simp: and_then_def split: option.splits)
    then have "f' v = Some z" by (rule assms(3))
    with assms(1) Some m' y Inr z show ?thesis by (simp add: and_then_def)
  qed
qed

lemma AND_loop_mono:
  "AND_loop ev ps = Some x \<Longrightarrow> (\<And>p y. ev p = Some y \<Longrightarrow> ev' p = Some y) \<Longrightarrow>
   AND_loop ev' ps = Some x"
proof (induction ps arbitrary: x)
  case Nil
  then show ?case by simp
next
  case (Cons p ps)
  from Cons.prems(1) show ?case
    unfolding AND_loop.simps
    by (rule and_then_mono) (auto simp: Cons.prems(2) intro: Cons.IH Cons.prems(2) split: if_splits)
qed

lemma OR_loop_mono:
  "OR_loop ev ps = Some x \<Longrightarrow> (\<And>p y. ev p = Some y \<Longrightarrow> ev' p = Some y) \<Longrightarrow>
   OR_loop ev' ps = Some x"
proof (induction ps arbitrary: x)
  case Nil
  then show ?case by simp
next
  case (Cons p ps)
  from Cons.prems(1) show ?case
    unfolding OR_loop.simps
    by (rule and_then_mono) (auto simp: Cons.prems(2) intro: Cons.IH Cons.prems(2) split: if_splits)
qed

lemma NOR_loop_mono:
  "NOR_loop ev ps = Some x \<Longrightarrow> (\<And>p y. ev p = Some y \<Longrightarrow> ev' p = Some y) \<Longrightarrow>
   NOR_loop ev' ps = Some x"
proof (induction ps arbitrary: x)
  case Nil
  then show ?case by simp
next
  case (Cons p ps)
  from Cons.prems(1) show ?case
    unfolding NOR_loop.simps
    by (rule and_then_mono) (auto simp: Cons.prems(2) intro: Cons.IH Cons.prems(2) split: if_splits)
qed

lemma NOT_eval_mono:
  "NOT_eval ev ps = Some x \<Longrightarrow> (\<And>p y. ev p = Some y \<Longrightarrow> ev' p = Some y) \<Longrightarrow>
   NOT_eval ev' ps = Some x"
  unfolding NOT_eval_def by (auto split: if_splits intro: NOR_loop_mono)

lemma NOR_eval_mono:
  "NOR_eval ev ps = Some x \<Longrightarrow> (\<And>p y. ev p = Some y \<Longrightarrow> ev' p = Some y) \<Longrightarrow>
   NOR_eval ev' ps = Some x"
  unfolding NOR_eval_def by (auto split: if_splits intro: NOR_loop_mono)

lemma NAND_eval_mono:
  assumes "NAND_eval ev ps = Some x" and ev: "\<And>p y. ev p = Some y \<Longrightarrow> ev' p = Some y"
  shows "NAND_eval ev' ps = Some x"
proof (cases "length ps \<noteq> 2")
  case True
  with assms(1) show ?thesis by (simp add: NAND_eval_def)
next
  case False
  with assms(1) have "and_then (ev (ps ! 0)) (\<lambda>a.
          if truthy a then
            and_then (ev (ps ! 1)) (\<lambda>b.
              if truthy b then ret (PyBool False) else ret (PyBool True))
          else ret (PyBool True)) = Some x"
    by (simp add: NAND_eval_def)
  then have "and_then (ev' (ps ! 0)) (\<lambda>a.
          if truthy a then
            and_then (ev' (ps ! 1)) (\<lambda>b.
              if truthy b then ret (PyBool False) else ret (PyBool True))
          else ret (PyBool True)) = Some x"
    by (rule and_then_mono) (auto intro: ev elim: and_then_mono split: if_splits)
  with False show ?thesis by (simp add: NAND_eval_def)
qed

lemma XOR_eval_mono:
  assumes "XOR_eval ev ps = Some x" and ev: "\<And>p y. ev p = Some y \<Longrightarrow> ev' p = Some y"
  shows "XOR_eval ev' ps = Some x"
proof (cases "length ps \<noteq> 2")
  case True
  with assms(1) show ?thesis by (simp add: XOR_eval_def)
next
  case False
  have elif: "and_then (ev' (ps ! 1)) (\<lambda>b.
             if truthy b then
               and_then (ev' (ps ! 0)) (\<lambda>a.
                 if \<not> truthy a then ret (PyBool True) else ret (PyBool False))
             else ret (PyBool False)) = Some y"
    if "and_then (ev (ps ! 1)) (\<lambda>b.
             if truthy b then
               and_then (ev (ps ! 0)) (\<lambda>a.
                 if \<not> truthy a then ret (PyBool True) else ret (PyBool False))
             else ret (PyBool False)) = Some y" for y
    using that by (rule and_then_mono) (auto intro: ev elim: and_then_mono split: if_splits)
  from False assms(1) have "and_then (ev (ps ! 0)) (\<lambda>a.
           if truthy a then
             and_then (ev (ps ! 1)) (\<lambda>b. if \<not> truthy b then ret (PyBool True) else
               and_then (ev (ps ! 1)) (\<lambda>b.
                 if truthy b then
                   and_then (ev (ps ! 0)) (\<lambda>a.
                     if \<not> truthy a then ret (PyBool True) else ret (PyBool False))
                 else ret (PyBool False)))
           else
             and_then (ev (ps ! 1)) (\<lambda>b.
               if truthy b then
                 and_then (ev (ps ! 0)) (\<lambda>a.
                   if \<not> truthy a then ret (PyBool True) else ret (PyBool False))
               else ret (PyBool False))) = Some x"
    by (simp add: XOR_eval_def Let_def del: One_nat_def)
  then have "and_then (ev' (ps ! 0)) (\<lambda>a.
           if truthy a then
             and_then (ev' (ps ! 1)) (\<lambda>b. if \<not> truthy b then ret (PyBool True) else
               and_then (ev' (ps ! 1)) (\<lambda>b.
                 if truthy b then
                   and_then (ev' (ps ! 0)) (\<lambda>a.
                     if \<not> truthy a then ret (PyBool True) else ret (PyBool False))
                 else ret (PyBool False)))
           else
             and_then (ev' (ps ! 1)) (\<lambda>b.
               if truthy b then
                 and_then (ev' (ps ! 0)) (\<lambda>a.
                   if \<not> truthy a then ret (PyBool True) else ret (PyBool False))
               else ret (PyBool False))) = Some x"
  proof (rule and_then_mono)
    fix y assume "ev (ps ! 0) = Some y"
    then show "ev' (ps ! 0) = Some y" by (rule ev)
  next
    fix v y
    assume h: "(if truthy v then
             and_then (ev (ps ! 1)) (\<lambda>b. if \<not> truthy b then ret (PyBool True) else
               and_then (ev (ps ! 1)) (\<lambda>b.
                 if truthy b then
                   and_then (ev (ps ! 0)) (\<lambda>a.
                     if \<not> truthy a then ret (PyBool True) else ret (PyBool False))
                 else ret (PyBool False)))
           else
             and_then (ev (ps ! 1)) (\<lambda>b.
               if truthy b then
                 and_then (ev (ps ! 0)) (\<lambda>a.
                   if \<not> truthy a then ret (PyBool True) else ret (PyBool False))
               else ret (PyBool False))) = Some y"
    show "(if truthy v then
             and_then (ev' (ps ! 1)) (\<lambda>b. if \<not> truthy b then ret (PyBool True) else
               and_then (ev' (ps ! 1)) (\<lambda>b.
                 if truthy b then
                   and_then (ev' (ps ! 0)) (\<lambda>a.
                     if \<not> truthy a then ret (PyBool True) else ret (PyBool False))
                 else ret (PyBool False)))
           else
             and_then (ev' (ps ! 1)) (\<lambda>b.
               if truthy b then
                 and_then (ev' (ps ! 0)) (\<lambda>a.
                   if \<not> truthy a then ret (PyBool True) else ret (PyBool False))
               else ret (PyBool False))) = Some y"
    proof (cases "truthy v")
      case True
      with h have "and_then (ev (ps ! 1)) (\<lambda>b. if \<not> truthy b then ret (PyBool True) else
               and_then (ev (ps ! 1)) (\<lambda>b.
                 if truthy b then
                   and_then (ev (ps ! 0)) (\<lambda>a.
                     if \<not> truthy a then ret (PyBool True) else ret (PyBool False))
                 else ret (PyBool False))) = Some y" by simp
      then have "and_then (ev' (ps ! 1)) (\<lambda>b. if \<not> truthy b then ret (PyBool True) else
               and_then (ev' (ps ! 1)) (\<lambda>b.
                 if truthy b then
                   and_then (ev' (ps ! 0)) (\<lambda>a.
                     if \<not> truthy a then ret (PyBool True) else ret (PyBool False))
                 else ret (PyBool False))) = Some y"
      proof (rule and_then_mono)
        fix z assume "ev (ps ! 1) = Some z"
        then show "ev' (ps ! 1) = Some z" by (rule ev)
      next
        fix w z
        assume "(if \<not> truthy w then ret (PyBool True) else
               and_then (ev (ps ! 1)) (\<lambda>b.
                 if truthy b then
                   and_then (ev (ps ! 0)) (\<lambda>a.
                     if \<not> truthy a then ret (PyBool True) else ret (PyBool False))
                 else ret (PyBool False))) = Some z"
        then show "(if \<not> truthy w then ret (PyBool True) else
               and_then (ev' (ps ! 1)) (\<lambda>b.
                 if truthy b then
                   and_then (ev' (ps ! 0)) (\<lambda>a.
                     if \<not> truthy a then ret (PyBool True) else ret (PyBool False))
                 else ret (PyBool False))) = Some z"
          by (cases "truthy w") (auto simp del: One_nat_def intro: elif)
      qed
      with True show ?thesis by simp
    next
      case False
      with h show ?thesis by (auto simp del: One_nat_def intro: elif)
    qed
  qed
  with False show ?thesis by (simp add: XOR_eval_def Let_def del: One_nat_def)
qed

lemma with_parameters_mono:
  "with_parameters s row f = Some x \<Longrightarrow> (\<And>ps. f ps = Some x \<Longrightarrow> f' ps = Some x) \<Longrightarrow>
   with_parameters s row f' = Some x"
  by (auto simp: with_parameters_def split: sum.splits)

lemma dispatch_mono:
  "dispatch lib s ev row data = Some x \<Longrightarrow> (\<And>p y. ev p = Some y \<Longrightarrow> ev' p = Some y) \<Longrightarrow>
   dispatch lib s ev' row data = Some x"
  unfolding dispatch_def AND_eval_def OR_eval_def
  by (cases "optype row")
    (auto elim!: with_parameters_mono
      intro: AND_loop_mono OR_loop_mono NOT_eval_mono XOR_eval_mono NAND_eval_mono
      NOR_eval_mono)

lemma enter_mono:
  "enter i m = Some x \<Longrightarrow> (\<And>y. m = Some y \<Longrightarrow> m' = Some y) \<Longrightarrow> enter i m' = Some x"
  by (cases m) (auto simp: enter_def)

lemma eval_Suc_mono:
  "eval k lib s self data = Some x \<Longrightarrow> eval (Suc k) lib s self data = Some x"
proof (induction k arbitrary: self x)
  case 0
  then show ?case by simp
next
  case (Suc k)
  show ?case
  proof (cases "map_of s self")
    case None
    with Suc.prems show ?thesis by simp
  next
    case (Some row)
    with Suc.prems have "enter self (dispatch lib s (\<lambda>param. eval k lib s param data) row data)
        = Some x" by simp
    then have "enter self (dispatch lib s (\<lambda>param. eval (Suc k) lib s param data) row data)
        = Some x"
      by (rule enter_mono) (erule dispatch_mono, rule Suc.IH)
    with Some show ?thesis by (simp del: eval.simps(2) add: eval.simps(2) [of "Suc k"])
  qed
qed

lemma eval_mono:
  assumes "k \<le> k'" and "eval k lib s self data = Some x"
  shows "eval k' lib s self data = Some x"
  using assms
proof (induction rule: dec_induct)
  case base
  then show ?case .
next
  case (step n)
  then show ?case by (intro eval_Suc_mono) simp
qed

text \<open>
  The loops and methods read the calls of the parameters they are given, and nothing else.
\<close>

lemma AND_loop_agree:
  assumes "\<And>p. p \<in> set ps \<Longrightarrow> ev p = ev' p"
  shows "AND_loop ev ps = AND_loop ev' ps"
  using assms
proof (induction ps)
  case Nil
  show ?case by simp
next
  case (Cons a ps)
  have 1: "ev a = ev' a" using Cons.prems by simp
  have 2: "AND_loop ev ps = AND_loop ev' ps" using Cons.prems by (intro Cons.IH) simp
  show ?case unfolding AND_loop.simps 1 2 ..
qed

lemma OR_loop_agree:
  assumes "\<And>p. p \<in> set ps \<Longrightarrow> ev p = ev' p"
  shows "OR_loop ev ps = OR_loop ev' ps"
  using assms
proof (induction ps)
  case Nil
  show ?case by simp
next
  case (Cons a ps)
  have 1: "ev a = ev' a" using Cons.prems by simp
  have 2: "OR_loop ev ps = OR_loop ev' ps" using Cons.prems by (intro Cons.IH) simp
  show ?case unfolding OR_loop.simps 1 2 ..
qed

lemma NOR_loop_agree:
  assumes "\<And>p. p \<in> set ps \<Longrightarrow> ev p = ev' p"
  shows "NOR_loop ev ps = NOR_loop ev' ps"
  using assms
proof (induction ps)
  case Nil
  show ?case by simp
next
  case (Cons a ps)
  have 1: "ev a = ev' a" using Cons.prems by simp
  have 2: "NOR_loop ev ps = NOR_loop ev' ps" using Cons.prems by (intro Cons.IH) simp
  show ?case unfolding NOR_loop.simps 1 2 ..
qed

lemma NOT_eval_agree:
  assumes "\<And>p. p \<in> set ps \<Longrightarrow> ev p = ev' p"
  shows "NOT_eval ev ps = NOT_eval ev' ps"
proof -
  have h: "NOR_loop ev ps = NOR_loop ev' ps" using assms by (rule NOR_loop_agree)
  show ?thesis unfolding NOT_eval_def h ..
qed

lemma NOR_eval_agree:
  assumes "\<And>p. p \<in> set ps \<Longrightarrow> ev p = ev' p"
  shows "NOR_eval ev ps = NOR_eval ev' ps"
proof -
  have h: "NOR_loop ev ps = NOR_loop ev' ps" using assms by (rule NOR_loop_agree)
  show ?thesis unfolding NOR_eval_def h ..
qed

lemma two_parameters:
  assumes "length ps = 2" and "\<And>p. p \<in> set ps \<Longrightarrow> ev p = ev' p"
  shows "ev (ps ! 0) = ev' (ps ! 0)" and "ev (ps ! 1) = ev' (ps ! 1)"
  using assms(2) [OF nth_mem [of 0 ps]] assms(2) [OF nth_mem [of 1 ps]] assms(1) by simp_all

lemma XOR_eval_agree:
  assumes "\<And>p. p \<in> set ps \<Longrightarrow> ev p = ev' p"
  shows "XOR_eval ev ps = XOR_eval ev' ps"
proof (cases "length ps = 2")
  case True
  from True assms have 0: "ev (ps ! 0) = ev' (ps ! 0)" by (rule two_parameters(1))
  from True assms have 1: "ev (ps ! 1) = ev' (ps ! 1)" by (rule two_parameters(2))
  show ?thesis unfolding XOR_eval_def 0 1 ..
next
  case False
  then show ?thesis by (simp add: XOR_eval_def)
qed

lemma NAND_eval_agree:
  assumes "\<And>p. p \<in> set ps \<Longrightarrow> ev p = ev' p"
  shows "NAND_eval ev ps = NAND_eval ev' ps"
proof (cases "length ps = 2")
  case True
  from True assms have 0: "ev (ps ! 0) = ev' (ps ! 0)" by (rule two_parameters(1))
  from True assms have 1: "ev (ps ! 1) = ev' (ps ! 1)" by (rule two_parameters(2))
  show ?thesis unfolding NAND_eval_def 0 1 ..
next
  case False
  then show ?thesis by (simp add: NAND_eval_def)
qed

lemma same_fields:
  assumes "r1\<lparr>name := None\<rparr> = r2\<lparr>name := None\<rparr>"
  shows "optype r1 = optype r2" and "pattern r1 = pattern r2"
    and "case_sensitive r1 = case_sensitive r2" and "parameters r1 = parameters r2"
  using arg_cong [OF assms, of optype] arg_cong [OF assms, of pattern]
    arg_cong [OF assms, of case_sensitive] arg_cong [OF assms, of parameters]
  by simp_all

lemma RegexOp_eval_fields:
  "pattern r1 = pattern r2 \<Longrightarrow> case_sensitive r1 = case_sensitive r2 \<Longrightarrow>
   RegexOp_eval lib r1 data engine = RegexOp_eval lib r2 data engine"
  by (cases engine) (simp_all add: RegexOp_eval_def RegexOp_compile_def split: option.splits)

lemma list_all_present:
  assumes "\<And>p. p \<in> set ps \<Longrightarrow> (f p = None) = (g p = None)"
  shows "list_all (\<lambda>p. f p \<noteq> None) ps = list_all (\<lambda>p. g p \<noteq> None) ps"
proof -
  have "(f p \<noteq> None) = (g p \<noteq> None)" if "p \<in> set ps" for p
    using assms [OF that] by simp
  then show ?thesis unfolding list_all_iff by blast
qed

lemma with_parameters_at:
  "f (parameters row) = g (parameters row) \<Longrightarrow>
   with_parameters s row f = with_parameters s row g"
  by (simp add: with_parameters_def load_parameters_def)

lemma with_parameters_store:
  assumes "parameters r1 = parameters r2"
    and "\<And>p. p \<in> set (parameters r1) \<Longrightarrow> (map_of s1 p = None) = (map_of s2 p = None)"
  shows "with_parameters s1 r1 f = with_parameters s2 r2 f"
proof -
  have "list_all (\<lambda>p. map_of s1 p \<noteq> None) (parameters r1) =
      list_all (\<lambda>p. map_of s2 p \<noteq> None) (parameters r1)"
    using assms(2) by (rule list_all_present)
  with assms(1) show ?thesis by (simp add: with_parameters_def load_parameters_def)
qed

lemma dispatch_agree:
  assumes r: "r1\<lparr>name := None\<rparr> = r2\<lparr>name := None\<rparr>"
    and present: "\<And>p. p \<in> set (parameters r1) \<Longrightarrow> (map_of s1 p = None) = (map_of s2 p = None)"
    and ev: "\<And>p. p \<in> set (parameters r1) \<Longrightarrow> ev1 p = ev2 p"
  shows "dispatch lib s1 ev1 r1 data = dispatch lib s2 ev2 r2 data"
proof -
  note f = same_fields [OF r]
  have st: "with_parameters s1 r1 g = with_parameters s2 r2 g" for g
    using f(4) present by (rule with_parameters_store)
  have "AND_eval ev1 (parameters r1) = AND_eval ev2 (parameters r1)"
    unfolding AND_eval_def using ev by (rule AND_loop_agree)
  then have A: "with_parameters s1 r1 (AND_eval ev1) = with_parameters s2 r2 (AND_eval ev2)"
    using with_parameters_at [of "AND_eval ev1" r1 "AND_eval ev2" s1] st by simp
  have "OR_eval ev1 (parameters r1) = OR_eval ev2 (parameters r1)"
    unfolding OR_eval_def using ev by (rule OR_loop_agree)
  then have O: "with_parameters s1 r1 (OR_eval ev1) = with_parameters s2 r2 (OR_eval ev2)"
    using with_parameters_at [of "OR_eval ev1" r1 "OR_eval ev2" s1] st by simp
  have "NOT_eval ev1 (parameters r1) = NOT_eval ev2 (parameters r1)"
    using ev by (rule NOT_eval_agree)
  then have N: "with_parameters s1 r1 (NOT_eval ev1) = with_parameters s2 r2 (NOT_eval ev2)"
    using with_parameters_at [of "NOT_eval ev1" r1 "NOT_eval ev2" s1] st by simp
  have "XOR_eval ev1 (parameters r1) = XOR_eval ev2 (parameters r1)"
    using ev by (rule XOR_eval_agree)
  then have X: "with_parameters s1 r1 (XOR_eval ev1) = with_parameters s2 r2 (XOR_eval ev2)"
    using with_parameters_at [of "XOR_eval ev1" r1 "XOR_eval ev2" s1] st by simp
  have "NAND_eval ev1 (parameters r1) = NAND_eval ev2 (parameters r1)"
    using ev by (rule NAND_eval_agree)
  then have NA: "with_parameters s1 r1 (NAND_eval ev1) = with_parameters s2 r2 (NAND_eval ev2)"
    using with_parameters_at [of "NAND_eval ev1" r1 "NAND_eval ev2" s1] st by simp
  have "NOR_eval ev1 (parameters r1) = NOR_eval ev2 (parameters r1)"
    using ev by (rule NOR_eval_agree)
  then have NO: "with_parameters s1 r1 (NOR_eval ev1) = with_parameters s2 r2 (NOR_eval ev2)"
    using with_parameters_at [of "NOR_eval ev1" r1 "NOR_eval ev2" s1] st by simp
  have R: "RegexOp_eval lib r1 data None = RegexOp_eval lib r2 data None"
    using f(2) f(3) by (rule RegexOp_eval_fields)
  show ?thesis
    unfolding dispatch_def f(1) [symmetric] A O N X NA NO R ..
qed

text \<open>
  Two stores that hold the same objects, names apart, on a set of references that
  contains \<open>self\<close> and, with an object, its parameters: the call has the same outcome in
  both.
\<close>

lemma eval_agree:
  assumes closed: "\<And>i row. i \<in> R \<Longrightarrow> map_of s1 i = Some row \<Longrightarrow> set (parameters row) \<subseteq> R"
    and same: "\<And>i. i \<in> R \<Longrightarrow>
      map_option (\<lambda>row. row\<lparr>name := None\<rparr>) (map_of s1 i) =
      map_option (\<lambda>row. row\<lparr>name := None\<rparr>) (map_of s2 i)"
  shows "self \<in> R \<Longrightarrow> eval k lib s1 self data = eval k lib s2 self data"
proof (induction k arbitrary: self)
  case 0
  show ?case by simp
next
  case (Suc k)
  show ?case
  proof (cases "map_of s1 self")
    case None
    with same [OF Suc.prems] have "map_of s2 self = None" by simp
    with None show ?thesis by simp
  next
    case (Some r1)
    with same [OF Suc.prems] obtain r2 where r2: "map_of s2 self = Some r2"
      and r: "r1\<lparr>name := None\<rparr> = r2\<lparr>name := None\<rparr>"
      by (cases "map_of s2 self") auto
    have sub: "set (parameters r1) \<subseteq> R" using closed Suc.prems Some by blast
    have "dispatch lib s1 (\<lambda>param. eval k lib s1 param data) r1 data =
        dispatch lib s2 (\<lambda>param. eval k lib s2 param data) r2 data"
    proof (rule dispatch_agree [OF r])
      fix p assume "p \<in> set (parameters r1)"
      with sub have p: "p \<in> R" by blast
      from same [OF p] show "(map_of s1 p = None) = (map_of s2 p = None)"
        by (cases "map_of s1 p"; cases "map_of s2 p") simp_all
      from p show "eval k lib s1 p data = eval k lib s2 p data" by (rule Suc.IH)
    qed
    with Some r2 show ?thesis by simp
  qed
qed

lemma RegexOp_eval_entry:
  assumes "r1\<lparr>name := None\<rparr> = r2\<lparr>name := None\<rparr>"
    and "re_cache e1 (pattern r1) = re_cache e2 (pattern r1)"
  shows "fst (RegexOp_eval lib r1 data (Some e1)) = fst (RegexOp_eval lib r2 data (Some e2))"
proof -
  note f = same_fields [OF assms(1)]
  have "fst (RegexOp_eval lib r1 data (Some e1)) = fst (RegexOp_eval lib r1 data (Some e2))"
    using assms(2)
    by (cases "re_cache e2 (pattern r1)";
        cases "re_compile lib (pattern r1) (\<not> case_sensitive r1)")
      (simp_all add: RegexOp_eval_hit RegexOp_eval_miss RegexOp_eval_miss_error)
  also have "RegexOp_eval lib r1 data (Some e2) = RegexOp_eval lib r2 data (Some e2)"
    using f by (intro RegexOp_eval_fields)
  finally show ?thesis .
qed

text \<open>
  C8. The outcome of an evaluation is a function of the object, with the objects it
  reaches through parameters, of the data and, for a \<^verbatim>\<open>RegexOp\<close> called with an
  engine, of what the cache holds for its pattern; it depends on nothing else in the
  store or the engine. Let \<open>R\<close> be a set of references that contains \<open>self\<close> and, with
  an object, its parameters. Two stores that hold the same objects on \<open>R\<close>, names
  apart, give \<^verbatim>\<open>self.eval(data)\<close> the same outcome, whatever rows they hold outside
  \<open>R\<close> and whatever the objects are called. Two engines that hold the same matcher, or
  none, for the pattern of a \<^verbatim>\<open>RegexOp\<close> give its \<^verbatim>\<open>eval(data, engine)\<close> the same
  outcome, whatever their other entries and fields. And an outcome reached within one
  recursion depth is the outcome within every larger one.
\<close>

theorem eval_pure:
  "self \<in> R \<Longrightarrow>
   \<forall>i\<in>R. \<forall>row. map_of s1 i = Some row \<longrightarrow> set (parameters row) \<subseteq> R \<Longrightarrow>
   \<forall>i\<in>R. map_option (\<lambda>row. row\<lparr>name := None\<rparr>) (map_of s1 i) =
           map_option (\<lambda>row. row\<lparr>name := None\<rparr>) (map_of s2 i) \<Longrightarrow>
   eval k lib s1 self data = eval k lib s2 self data \<and>
   (\<forall>r1 r2 e1 e2.
      r1\<lparr>name := None\<rparr> = r2\<lparr>name := None\<rparr> \<and>
      re_cache e1 (pattern r1) = re_cache e2 (pattern r1) \<longrightarrow>
      fst (RegexOp_eval lib r1 data (Some e1)) = fst (RegexOp_eval lib r2 data (Some e2))) \<and>
   (\<forall>x k'. eval k lib s1 self data = Some x \<and> k \<le> k' \<longrightarrow>
      eval k' lib s1 self data = Some x)"
proof (intro conjI allI impI)
  assume self: "self \<in> R"
    and closed: "\<forall>i\<in>R. \<forall>row. map_of s1 i = Some row \<longrightarrow> set (parameters row) \<subseteq> R"
    and same: "\<forall>i\<in>R. map_option (\<lambda>row. row\<lparr>name := None\<rparr>) (map_of s1 i) =
           map_option (\<lambda>row. row\<lparr>name := None\<rparr>) (map_of s2 i)"
  show "eval k lib s1 self data = eval k lib s2 self data"
  proof (rule eval_agree [of R s1 s2])
    fix i row
    assume "i \<in> R" and "map_of s1 i = Some row"
    with closed show "set (parameters row) \<subseteq> R" by blast
  next
    fix i
    assume "i \<in> R"
    with same show "map_option (\<lambda>row. row\<lparr>name := None\<rparr>) (map_of s1 i) =
           map_option (\<lambda>row. row\<lparr>name := None\<rparr>) (map_of s2 i)" by blast
  next
    show "self \<in> R" by (rule self)
  qed
next
  fix r1 r2 :: operator and e1 e2 :: "'a Engine"
  assume "r1\<lparr>name := None\<rparr> = r2\<lparr>name := None\<rparr> \<and>
      re_cache e1 (pattern r1) = re_cache e2 (pattern r1)"
  then show "fst (RegexOp_eval lib r1 data (Some e1)) = fst (RegexOp_eval lib r2 data (Some e2))"
    by (intro RegexOp_eval_entry) simp_all
next
  fix x k'
  assume "eval k lib s1 self data = Some x \<and> k \<le> k'"
  then show "eval k' lib s1 self data = Some x"
    using eval_mono [of k k' lib s1 self data x] by simp
qed

theorem eval_pure_witness:
  "eval (Suc (Suc 0)) lit_re
     [(1, \<lparr>optype = AND, name = None, pattern = [], case_sensitive = False,
           parameters = [2, 3]\<rparr>),
      (2, \<lparr>optype = RegexOp, name = None, pattern = ''^ORDER'', case_sensitive = False,
           parameters = []\<rparr>),
      (3, \<lparr>optype = RegexOp, name = None, pattern = ''foobar'', case_sensitive = False,
           parameters = []\<rparr>),
      (4, \<lparr>optype = XOR, name = Some ''unused'', pattern = [], case_sensitive = False,
           parameters = [9]\<rparr>)] 1 (Some ''Order re Foobar'') = Some (Inr (PyBool True), [1, 2, 3]) \<and>
   eval (Suc (Suc 0)) lit_re
     [(7, \<lparr>optype = OR, name = None, pattern = [], case_sensitive = False,
           parameters = [1, 1]\<rparr>),
      (1, \<lparr>optype = AND, name = Some ''both'', pattern = [], case_sensitive = False,
           parameters = [2, 3]\<rparr>),
      (2, \<lparr>optype = RegexOp, name = Some ''order'', pattern = ''^ORDER'', case_sensitive = False,
           parameters = []\<rparr>),
      (3, \<lparr>optype = RegexOp, name = None, pattern = ''foobar'', case_sensitive = False,
           parameters = []\<rparr>)] 1 (Some ''Order re Foobar'') = Some (Inr (PyBool True), [1, 2, 3]) \<and>
   eval (Suc (Suc (Suc 0))) lit_re
     [(1, \<lparr>optype = AND, name = None, pattern = [], case_sensitive = False,
           parameters = [2, 3]\<rparr>),
      (2, \<lparr>optype = RegexOp, name = None, pattern = ''^ORDER'', case_sensitive = False,
           parameters = []\<rparr>),
      (3, \<lparr>optype = RegexOp, name = None, pattern = ''foobar'', case_sensitive = False,
           parameters = []\<rparr>),
      (4, \<lparr>optype = XOR, name = Some ''unused'', pattern = [], case_sensitive = False,
           parameters = [9]\<rparr>)] 1 (Some ''Order re Foobar'') = Some (Inr (PyBool True), [1, 2, 3]) \<and>
   fst (RegexOp_eval lit_re
     \<lparr>optype = RegexOp, name = None, pattern = ''foobar'', case_sensitive = False,
        parameters = []\<rparr> (Some ''Order re Foobar'')
     (Some \<lparr>debuglevel = 0, dbconnection = None,
        re_cache = [''foobar'' \<mapsto> LitMatcher False ''foobar'' False]\<rparr>)) =
   fst (RegexOp_eval lit_re
     \<lparr>optype = RegexOp, name = Some ''foo'', pattern = ''foobar'', case_sensitive = False,
        parameters = []\<rparr> (Some ''Order re Foobar'')
     (Some \<lparr>debuglevel = 1, dbconnection = Some ''sqlite:/pyple.db'',
        re_cache = [''markman'' \<mapsto> LitMatcher False ''markman'' True,
                    ''foobar'' \<mapsto> LitMatcher False ''foobar'' False]\<rparr>))"
proof -
  let ?s1 = "[(1, \<lparr>optype = AND, name = None, pattern = [], case_sensitive = False,
           parameters = [2, 3]\<rparr>),
      (2, \<lparr>optype = RegexOp, name = None, pattern = ''^ORDER'', case_sensitive = False,
           parameters = []\<rparr>),
      (3, \<lparr>optype = RegexOp, name = None, pattern = ''foobar'', case_sensitive = False,
           parameters = []\<rparr>),
      (4, \<lparr>optype = XOR, name = Some ''unused'', pattern = [], case_sensitive = False,
           parameters = [9]\<rparr>)] :: store"
  let ?s2 = "[(7, \<lparr>optype = OR, name = None, pattern = [], case_sensitive = False,
           parameters = [1, 1]\<rparr>),
      (1, \<lparr>optype = AND, name = Some ''both'', pattern = [], case_sensitive = False,
           parameters = [2, 3]\<rparr>),
      (2, \<lparr>optype = RegexOp, name = Some ''order'', pattern = ''^ORDER'', case_sensitive = False,
           parameters = []\<rparr>),
      (3, \<lparr>optype = RegexOp, name = None, pattern = ''foobar'', case_sensitive = False,
           parameters = []\<rparr>)] :: store"
  let ?R = "{1, 2, 3} :: nat set"
  let ?d = "Some ''Order re Foobar''"
  have "1 \<in> ?R" by simp
  moreover have "\<forall>i\<in>?R. \<forall>row. map_of ?s1 i = Some row \<longrightarrow> set (parameters row) \<subseteq> ?R"
    by auto
  moreover have "\<forall>i\<in>?R. map_option (\<lambda>row. row\<lparr>name := None\<rparr>) (map_of ?s1 i) =
      map_option (\<lambda>row. row\<lparr>name := None\<rparr>) (map_of ?s2 i)"
    by simp
  ultimately have pure: "eval k lit_re ?s1 1 ?d = eval k lit_re ?s2 1 ?d \<and>
      (\<forall>r1 r2 e1 e2.
        r1\<lparr>name := None\<rparr> = r2\<lparr>name := None\<rparr> \<and>
        re_cache e1 (pattern r1) = re_cache e2 (pattern r1) \<longrightarrow>
        fst (RegexOp_eval lit_re r1 ?d (Some e1)) = fst (RegexOp_eval lit_re r2 ?d (Some e2))) \<and>
      (\<forall>x k'. eval k lit_re ?s1 1 ?d = Some x \<and> k \<le> k' \<longrightarrow>
        eval k' lit_re ?s1 1 ?d = Some x)" for k
    by (rule eval_pure)
  have a: "eval (Suc (Suc 0)) lit_re ?s1 1 ?d = Some (Inr (PyBool True), [1, 2, 3])"
    by (simp add: eval_simps RegexOp_eval_def RegexOp_compile_def lit_simps)
  have b: "eval (Suc (Suc 0)) lit_re ?s2 1 ?d = Some (Inr (PyBool True), [1, 2, 3])"
    using a unfolding pure [of "Suc (Suc 0)", THEN conjunct1] .
  have c: "eval (Suc (Suc (Suc 0))) lit_re ?s1 1 ?d = Some (Inr (PyBool True), [1, 2, 3])"
    using a pure [of "Suc (Suc 0)", THEN conjunct2, THEN conjunct2, rule_format,
        of "(Inr (PyBool True), [1, 2, 3])" "Suc (Suc (Suc 0))"]
    by simp
  let ?r1 = "\<lparr>optype = RegexOp, name = None, pattern = ''foobar'', case_sensitive = False,
        parameters = []\<rparr>"
  let ?r2 = "\<lparr>optype = RegexOp, name = Some ''foo'', pattern = ''foobar'', case_sensitive = False,
        parameters = []\<rparr>"
  let ?e1 = "\<lparr>debuglevel = 0, dbconnection = None,
        re_cache = [''foobar'' \<mapsto> LitMatcher False ''foobar'' False]\<rparr>"
  let ?e2 = "\<lparr>debuglevel = 1, dbconnection = Some ''sqlite:/pyple.db'',
        re_cache = [''markman'' \<mapsto> LitMatcher False ''markman'' True,
                    ''foobar'' \<mapsto> LitMatcher False ''foobar'' False]\<rparr>"
  have "?r1\<lparr>name := None\<rparr> = ?r2\<lparr>name := None\<rparr> \<and>
      re_cache ?e1 (pattern ?r1) = re_cache ?e2 (pattern ?r1)" by simp
  note e = pure [of 0, THEN conjunct2, THEN conjunct1, rule_format, OF this]
  from a b c e show ?thesis by (intro conjI)
qed

end
